theory Spec2Isabelle
  imports Complex_Main "HOL-Library.Char_ord" "HOL-Library.List_Lexorder"
begin

section \<open>Shared data model\<close>

text \<open>
  Python exceptions are values. An exception is identified by its class and carries a
  message; \<open>py_class\<close> and \<open>py_message\<close> read the two off.
\<close>

datatype exn =
    LibadjointErrorInvalidInputs string
  | LibadjointErrorNotImplemented string
  | InvalidArgumentException string
  | AssertionError
  | AttributeError string
  | NameError string
  | ValueError
  | IndexError
  | ZeroDivisionError
  | TypeError
  | UnboundLocalError string
  | ContractError string
  | StateError
  | TapeStateError
  | BackendError string

fun py_class :: "exn \<Rightarrow> string" where
  "py_class (LibadjointErrorInvalidInputs m) = ''LibadjointErrorInvalidInputs''"
| "py_class (LibadjointErrorNotImplemented m) = ''LibadjointErrorNotImplemented''"
| "py_class (InvalidArgumentException m) = ''InvalidArgumentException''"
| "py_class AssertionError = ''AssertionError''"
| "py_class (AttributeError m) = ''AttributeError''"
| "py_class (NameError m) = ''NameError''"
| "py_class ValueError = ''ValueError''"
| "py_class IndexError = ''IndexError''"
| "py_class ZeroDivisionError = ''ZeroDivisionError''"
| "py_class TypeError = ''TypeError''"
| "py_class (UnboundLocalError m) = ''UnboundLocalError''"
| "py_class (ContractError m) = ''ContractError''"
| "py_class StateError = ''StateError''"
| "py_class TapeStateError = ''TapeStateError''"
| "py_class (BackendError m) = ''BackendError''"

fun py_message :: "exn \<Rightarrow> string" where
  "py_message (LibadjointErrorInvalidInputs m) = m"
| "py_message (LibadjointErrorNotImplemented m) = m"
| "py_message (InvalidArgumentException m) = m"
| "py_message (AttributeError m) = m"
| "py_message (NameError m) = m"
| "py_message (UnboundLocalError m) = m"
| "py_message (ContractError m) = m"
| "py_message (BackendError m) = m"
| "py_message e = []"

text \<open>
  Vectors of degrees of freedom. Python floats are modelled as reals: the claims below
  are about which number is selected and which operator is applied, not about rounding.
\<close>

type_synonym vec = "real list"

definition scale :: "real \<Rightarrow> vec \<Rightarrow> vec" where
  "scale c v = map (\<lambda>x. c * x) v"

text \<open>
  A Function object: its identity (\<open>fid\<close>, what Python's \<open>is\<close> and the UFL
  equality of coefficients compare), the string \<open>str\<close> gives for it, and the function
  space it lives in. Its values live in the heap of the world, under \<open>fid\<close>.
\<close>

record func =
  fid :: nat
  adj_name :: string
  fn_space :: nat

text \<open>
  A coefficient of a form: a Function (which has a \<open>function_space\<close> attribute) or a
  Constant (which has none).
\<close>

datatype coefficient = FunctionCoeff func | ConstantCoeff nat

fun has_function_space :: "coefficient \<Rightarrow> bool" where
  "has_function_space (FunctionCoeff f) = True"
| "has_function_space (ConstantCoeff c) = False"

text \<open>
  A UFL form, as far as the code looks at it: its structure (an opaque identity), what
  \<open>ufl.algorithms.extract_coefficients\<close> and \<open>extract_arguments\<close> return for it.
\<close>

record form =
  form_id :: nat
  extract_coefficients :: "coefficient list"
  extract_arguments :: "nat list"

subsection \<open>Variables and the variable registry\<close>

record variable =
  var_name :: string
  timestep :: nat
  iteration :: nat

text \<open>
  Modelled from the spec: the registry \<open>adj_variables\<close> (module \<open>solving\<close> /
  \<open>adjglobals\<close>) is not part of the sources. Section 4.1: the registry maps a named
  quantity to its version; \<open>next(name)\<close> allocates the next version of a name,
  incrementing the stored iteration counter, bound to the timestep of the current
  bracket; \<open>current(name)\<close> (Python's \<open>adj_variables[coeff]\<close>) returns the most
  recently allocated version without incrementing; \<open>forget(name)\<close> erases the
  tracking state. The name of a coefficient is what \<open>str\<close> gives for it. A name never
  seen before starts at iteration 0 of the current timestep.
\<close>

record registry =
  versions :: "string \<rightharpoonup> nat \<times> nat"
  cur_timestep :: nat

fun coeff_key :: "coefficient \<Rightarrow> nat" where
  "coeff_key (FunctionCoeff f) = 2 * fid f"
| "coeff_key (ConstantCoeff c) = 2 * c + 1"

fun coeff_str :: "coefficient \<Rightarrow> string" where
  "coeff_str (FunctionCoeff f) = adj_name f"
| "coeff_str (ConstantCoeff c) = ''Constant''"

definition mk_variable :: "string \<Rightarrow> nat \<times> nat \<Rightarrow> variable" where
  "mk_variable n v = \<lparr>var_name = n, timestep = fst v, iteration = snd v\<rparr>"

definition adj_current :: "string \<Rightarrow> registry \<Rightarrow> variable \<times> registry" where
  "adj_current n r =
     (case versions r n of
        Some v \<Rightarrow> (mk_variable n v, r)
      | None \<Rightarrow> (mk_variable n (cur_timestep r, 0),
                 r\<lparr>versions := (versions r)(n \<mapsto> (cur_timestep r, 0))\<rparr>))"

definition adj_next :: "string \<Rightarrow> registry \<Rightarrow> variable \<times> registry" where
  "adj_next n r =
     (case versions r n of
        Some v \<Rightarrow> (mk_variable n (cur_timestep r, Suc (snd v)),
                   r\<lparr>versions := (versions r)(n \<mapsto> (cur_timestep r, Suc (snd v)))\<rparr>)
      | None \<Rightarrow> (mk_variable n (cur_timestep r, 0),
                 r\<lparr>versions := (versions r)(n \<mapsto> (cur_timestep r, 0))\<rparr>))"

text \<open>The list comprehension \<open>[adj_variables[c] for c in cs]\<close>, left to right.\<close>

fun adj_current_list :: "string list \<Rightarrow> registry \<Rightarrow> variable list \<times> registry" where
  "adj_current_list [] r = ([], r)"
| "adj_current_list (n # ns) r =
     (let (v, r1) = adj_current n r; (vs, r2) = adj_current_list ns r1 in (v # vs, r2))"

section \<open>functional.py\<close>

text \<open>
  The backend's \<open>dolfin.assemble(dolfin.replace(form, d))\<close> is an external
  collaborator: a parameter taking the form and the replacement dictionary.
  \<open>dict(zip(ks, vs))\<close> keeps, for a repeated key, the last value.
\<close>

definition dict_zip :: "'k list \<Rightarrow> 'v list \<Rightarrow> ('k \<rightharpoonup> 'v)" where
  "dict_zip ks vs = map_of (rev (zip ks vs))"

type_synonym assembler = "form \<Rightarrow> (coefficient \<rightharpoonup> vec) \<Rightarrow> exn + real"

record FinalFunctional =
  ff_form :: form
  activated :: bool


definition FinalFunctional_call ::
  "assembler \<Rightarrow> FinalFunctional \<Rightarrow> variable list \<Rightarrow> vec list \<Rightarrow> exn + real" where
  "FinalFunctional_call assemble self dependencies values =
     (let dolfin_dependencies = filter has_function_space (extract_coefficients (ff_form self));
          dolfin_values = values
      in assemble (ff_form self) (dict_zip dolfin_dependencies dolfin_values))"



text \<open>
  \<open>TimeFunctional.__call__\<close>. The body binds the locals \<open>dolfin_dependencies_form\<close>
  and \<open>dolfin_values\<close> and then reads the name \<open>dolfin_dependencies\<close>, which the
  function never assigns: Python resolves it in the module's globals and then the
  builtins, and raises NameError when it is in neither. The names the module binds are
  its imports and its two classes.
\<close>

datatype pyval = PCoeffs "coefficient list" | PValues "vec list" | PModule

definition functional_module_globals :: "(string \<times> pyval) list" where
  "functional_module_globals =
     [(''libadjoint'', PModule), (''ufl'', PModule), (''dolfin'', PModule),
      (''hashlib'', PModule), (''solving'', PModule),
      (''FinalFunctional'', PModule), (''TimeFunctional'', PModule)]"

definition load_name :: "(string \<times> pyval) list \<Rightarrow> string \<Rightarrow> exn + pyval" where
  "load_name env n = (case map_of env n of Some v \<Rightarrow> Inr v | None \<Rightarrow> Inl (NameError n))"

definition TimeFunctional_call ::
  "assembler \<Rightarrow> form \<Rightarrow> nat \<Rightarrow> variable list \<Rightarrow> vec list \<Rightarrow> exn + real" where
  "TimeFunctional_call assemble self_form tstep dependencies values =
     (let locals =
            [(''dolfin_dependencies_form'',
                PCoeffs (filter has_function_space (extract_coefficients self_form))),
             (''dolfin_values'', PValues values)]
      in case load_name functional_module_globals ''dolfin_dependencies'' of
           Inl e \<Rightarrow> Inl e
         | Inr d \<Rightarrow>
             (case (d, load_name locals ''dolfin_values'') of
                (PCoeffs ks, Inr (PValues vs)) \<Rightarrow> assemble self_form (dict_zip ks vs)
              | _ \<Rightarrow> Inl (BackendError ''zip'')))"

section \<open>timestepping/caches.py\<close>

text \<open>
  An argument whose Python type the code tests with \<open>isinstance\<close>: an object of the
  expected type, or something else.
\<close>

datatype 'a arg = Obj 'a | WrongType

fun is_obj :: "'a arg \<Rightarrow> bool" where
  "is_obj (Obj x) = True"
| "is_obj WrongType = False"

fun the_obj :: "'a arg \<Rightarrow> 'a option" where
  "the_obj (Obj x) = Some x"
| "the_obj WrongType = None"

text \<open>
  A \<open>Parameters\<close> object or dictionary: keys with either a leaf value (kept as the
  value's printed form) or a nested set of parameters.
\<close>

datatype pvalue = PLeaf string | PNested "(string \<times> pvalue) list"

type_synonym parameters = "(string \<times> pvalue) list"

datatype pkey = KItem string string | KTuple "pkey list"

text \<open>
  \<open>parameters_key\<close>: the keys in sorted order; a nested entry contributes the key of
  its own parameters (without its name), a leaf contributes the pair (key, value).
\<close>

function parameters_key :: "parameters \<Rightarrow> pkey list" where
  "parameters_key ps =
     map (\<lambda>(k, v). case v of PNested qs \<Rightarrow> KTuple (parameters_key qs) | PLeaf x \<Rightarrow> KItem k x)
         (sort_key fst ps)"
  by pat_completeness auto
termination
proof (relation "measure (\<lambda>ps. size_list (size_prod (\<lambda>_. 0) size) ps)", goal_cases)
  case 1
  show ?case by simp
next
  case (2 ps x k v qs)
  then have "(k, PNested qs) \<in> set ps" by simp
  then have "size_prod (\<lambda>_. 0) size (k, PNested qs) \<le> size_list (size_prod (\<lambda>_. 0) size) ps"
    by (simp add: size_list_estimation')
  then show ?case by simp
qed

declare parameters_key.simps [simp del]

text \<open>\<open>form_rank\<close> (fenics_utils.py): the number of arguments of the form.\<close>

definition form_rank :: "form \<Rightarrow> nat" where
  "form_rank f = length (extract_arguments f)"

text \<open>
  \<open>bc_key\<close>: \<open>None\<close> for an empty list, otherwise the tuple of the boundary
  condition objects (compared by identity) with the two flags.
\<close>

definition bc_key :: "nat list \<Rightarrow> bool \<Rightarrow> bool \<Rightarrow> (nat list \<times> bool \<times> bool) option" where
  "bc_key bcs symmetric_bcs zero_columns =
     (if length bcs = 0 then None else Some (bcs, symmetric_bcs, zero_columns))"

type_synonym cache_key = "form \<times> pkey list \<times> (nat list \<times> bool \<times> bool) option"

text \<open>
  The external collaborators of the assembly cache: UFL's expansion of a form (the
  body of \<open>expand\<close>, which \<open>form_key\<close> returns), the global form compiler
  parameters and their \<open>update\<close>, the assembly routines, and the boundary condition
  methods. Assembly reads the current values of the coefficients (\<open>'e\<close>) and yields an
  assembled object (\<open>'t\<close>).
\<close>

record ('t, 'e) cache_backend =
  cb_expand :: "form \<Rightarrow> form"
  cb_form_compiler_parameters :: parameters
  cb_update :: "parameters \<Rightarrow> parameters \<Rightarrow> parameters"
  cb_assemble :: "form \<Rightarrow> parameters \<Rightarrow> 'e \<Rightarrow> exn + 't"
  cb_assemble_symmetric_bcs :: "form \<Rightarrow> nat list \<Rightarrow> parameters \<Rightarrow> 'e \<Rightarrow> exn + 't"
  cb_is_square :: "'t \<Rightarrow> bool"
  cb_bc_apply :: "nat \<Rightarrow> 'e \<Rightarrow> 't \<Rightarrow> 't"
  cb_bc_zero_columns :: "nat \<Rightarrow> 'e \<Rightarrow> 't \<Rightarrow> 't"

definition form_key :: "('t, 'e) cache_backend \<Rightarrow> form \<Rightarrow> form" where
  "form_key B f = cb_expand B f"

text \<open>
  \<open>apply_bcs(a, bcs, symmetric_bcs = ...)\<close> of fenics_utils.py with \<open>L = None\<close>; the
  matrix is changed in place and is returned here.
\<close>

definition apply_bcs ::
  "('t, 'e) cache_backend \<Rightarrow> 'e \<Rightarrow> 't \<Rightarrow> nat list \<Rightarrow> bool \<Rightarrow> exn + 't" where
  "apply_bcs B env a bcs symmetric_bcs =
     (if \<not> cb_is_square B a then Inl (InvalidArgumentException ''a must be a square GenericMatrix'')
      else
        (let a1 = fold (\<lambda>bc m. cb_bc_apply B bc env m) bcs a
         in if symmetric_bcs then Inr (fold (\<lambda>bc m. cb_bc_zero_columns B bc env m) bcs a1)
            else Inr a1))"

definition assembly_key ::
  "('t, 'e) cache_backend \<Rightarrow> form \<Rightarrow> parameters \<Rightarrow> nat list \<Rightarrow> bool \<Rightarrow> bool \<Rightarrow> cache_key" where
  "assembly_key B f fcp bcs symmetric_bcs zero_columns =
     (form_key B f,
      parameters_key (cb_update B (cb_form_compiler_parameters B) fcp),
      bc_key bcs symmetric_bcs zero_columns)"

text \<open>The part of \<open>AssemblyCache.assemble\<close> after the argument checks.\<close>

definition assemble_checked ::
  "('t, 'e) cache_backend \<Rightarrow> (cache_key \<rightharpoonup> 't) \<Rightarrow> form \<Rightarrow> parameters \<Rightarrow> nat list \<Rightarrow> bool \<Rightarrow> bool
     \<Rightarrow> 'e \<Rightarrow> (exn + 't) \<times> (cache_key \<rightharpoonup> 't)" where
  "assemble_checked B cache f fcp bcs symmetric_bcs zero_columns env =
     (let form_compiler_parameters = cb_update B (cb_form_compiler_parameters B) fcp;
          rank = form_rank f;
          key = (form_key B f, parameters_key form_compiler_parameters,
                 bc_key bcs symmetric_bcs zero_columns)
      in if length bcs = 0 then
           (case cache key of
              None \<Rightarrow>
                (case cb_assemble B f form_compiler_parameters env of
                   Inl e \<Rightarrow> (Inl e, cache)
                 | Inr t \<Rightarrow> (Inr t, cache(key \<mapsto> t)))
            | Some t \<Rightarrow> (Inr t, cache))
         else if \<not> rank = 2 then
           (Inl (InvalidArgumentException ''form must be rank 2 when applying boundary conditions''),
            cache)
         else
           (case cache key of
              None \<Rightarrow>
                (if symmetric_bcs \<and> \<not> zero_columns then
                   (case cb_assemble_symmetric_bcs B f bcs form_compiler_parameters env of
                      Inl e \<Rightarrow> (Inl e, cache)
                    | Inr mat \<Rightarrow> (Inr mat, cache(key \<mapsto> mat)))
                 else
                   (case cb_assemble B f form_compiler_parameters env of
                      Inl e \<Rightarrow> (Inl e, cache)
                    | Inr mat0 \<Rightarrow>
                        (case apply_bcs B env mat0 bcs symmetric_bcs of
                           Inl e \<Rightarrow> (Inl e, cache)
                         | Inr mat \<Rightarrow> (Inr mat, cache(key \<mapsto> mat)))))
            | Some t \<Rightarrow> (Inr t, cache)))"

definition AssemblyCache_assemble ::
  "('t, 'e) cache_backend \<Rightarrow> (cache_key \<rightharpoonup> 't) \<Rightarrow> form arg \<Rightarrow> parameters arg \<Rightarrow> nat arg list arg
     \<Rightarrow> bool \<Rightarrow> bool \<Rightarrow> 'e \<Rightarrow> (exn + 't) \<times> (cache_key \<rightharpoonup> 't)" where
  "AssemblyCache_assemble B cache form_arg fcp_arg bcs_arg symmetric_bcs zero_columns env =
     (case form_arg of
        WrongType \<Rightarrow> (Inl (InvalidArgumentException ''form must be a Form''), cache)
      | Obj f \<Rightarrow>
     (case fcp_arg of
        WrongType \<Rightarrow>
          (Inl (InvalidArgumentException
                  ''form_compiler_parameters must be a Parameters or dictionary''), cache)
      | Obj fcp \<Rightarrow>
     (case bcs_arg of
        WrongType \<Rightarrow> (Inl (InvalidArgumentException ''bcs must be a list of DirichletBC s''), cache)
      | Obj bcl \<Rightarrow>
          if \<not> list_all is_obj bcl then
            (Inl (InvalidArgumentException ''bcs must be a list of DirichletBC s''), cache)
          else assemble_checked B cache f fcp (List.map_filter the_obj bcl)
                 symmetric_bcs zero_columns env)))"

text \<open>
  \<open>AssemblyCache.clear(*args)\<close>: without arguments the cache becomes empty; with
  arguments, each must be a Constant or a Function, and for each in turn the keys whose
  form (the first component of the key) has it among its extracted coefficients are
  deleted.
\<close>

definition clear_dep :: "coefficient \<Rightarrow> (cache_key \<rightharpoonup> 't) \<Rightarrow> (cache_key \<rightharpoonup> 't)" where
  "clear_dep dep cache =
     (\<lambda>key. if dep \<in> set (extract_coefficients (fst key)) then None else cache key)"

definition AssemblyCache_clear ::
  "(cache_key \<rightharpoonup> 't) \<Rightarrow> coefficient arg list \<Rightarrow> exn + (cache_key \<rightharpoonup> 't)" where
  "AssemblyCache_clear cache args =
     (if length args = 0 then Inr Map.empty
      else if \<not> list_all is_obj args then
        Inl (InvalidArgumentException ''Arguments must be Constant s or Function s'')
      else Inr (fold clear_dep (List.map_filter the_obj args) cache))"

text \<open>
  A small concrete backend, for evaluating the cache on an example: a form assembles
  to the sum of the current values of its coefficients; \<open>update\<close> overrides the
  entries of the defaults that the argument names.
\<close>

definition example_form :: form where
  "example_form = \<lparr>form_id = 1, extract_coefficients = [ConstantCoeff 0], extract_arguments = []\<rparr>"

definition example_cache_backend :: "(real, nat \<Rightarrow> real) cache_backend" where
  "example_cache_backend =
     \<lparr>cb_expand = (\<lambda>f. f),
      cb_form_compiler_parameters = [(''optimize'', PLeaf ''False'')],
      cb_update = (\<lambda>d p. map (\<lambda>(k, v). (k, case map_of p k of Some w \<Rightarrow> w | None \<Rightarrow> v)) d),
      cb_assemble = (\<lambda>f p env. Inr (sum_list (map (\<lambda>c. env (coeff_key c)) (extract_coefficients f)))),
      cb_assemble_symmetric_bcs =
        (\<lambda>f bcs p env. Inr (sum_list (map (\<lambda>c. env (coeff_key c)) (extract_coefficients f)))),
      cb_is_square = (\<lambda>t. True),
      cb_bc_apply = (\<lambda>bc env t. t),
      cb_bc_zero_columns = (\<lambda>bc env t. t)\<rparr>"

definition example_key :: cache_key where
  "example_key = (example_form, [KItem ''optimize'' ''False''], None)"

section \<open>The tape\<close>

text \<open>
  Modelled from the spec: the tape (\<open>adjointer\<close>, from libadjoint and the module
  \<open>solving\<close> / \<open>adjglobals\<close>) is not part of the sources. Sections 3 and 4.3: an
  equation has a target variable, blocks and a right-hand side; the tape is the ordered
  list of registered equations with a map from variables to materialised values; a
  variable is known iff some equation of the tape targets it; \<open>register_equation\<close>
  appends, validating that the target is not already known and that the tape is not
  frozen, and returns an opaque checkpoint handle; \<open>record_variable\<close> puts a value into
  the storage map (section 6: \<open>put(Variable, value)\<close>); \<open>do_checkpoint\<close> force-retains
  an individual value regardless of the global policy (section 4.4), which is a flag on
  the variable and touches neither the equations nor the stored values.
\<close>

datatype tape_state = BUILDING | FROZEN

record ('b, 'r) equation =
  eq_var :: variable
  eq_blocks :: "'b list"
  eq_targets :: "variable list"
  eq_rhs :: 'r

record ('b, 'r) tape =
  tape_state :: tape_state
  equations :: "('b, 'r) equation list"
  storage :: "variable \<rightharpoonup> vec"
  retained :: "variable list"

datatype handle = Handle nat

definition variable_known :: "('b, 'r) tape \<Rightarrow> variable \<Rightarrow> bool" where
  "variable_known t v = (v \<in> set (map eq_var (equations t)))"

definition register_equation ::
  "('b, 'r) equation \<Rightarrow> ('b, 'r) tape \<Rightarrow> exn + handle \<times> ('b, 'r) tape" where
  "register_equation e t =
     (if tape_state t = FROZEN then Inl TapeStateError
      else if variable_known t (eq_var e) then Inl (ContractError ''target already known'')
      else Inr (Handle (length (equations t)), t\<lparr>equations := equations t @ [e]\<rparr>))"

definition record_variable :: "variable \<Rightarrow> vec \<Rightarrow> ('b, 'r) tape \<Rightarrow> ('b, 'r) tape" where
  "record_variable v x t = t\<lparr>storage := (storage t)(v \<mapsto> x)\<rparr>"

definition do_checkpoint :: "handle \<Rightarrow> variable \<Rightarrow> ('b, 'r) tape \<Rightarrow> ('b, 'r) tape" where
  "do_checkpoint cs v t = t\<lparr>retained := retained t @ [v]\<rparr>"

text \<open>
  Modelled from the spec: \<open>forget(name)\<close> fails with StateError if the latest version
  of the name is already known to the tape (section 4.1).
\<close>

definition adj_forget :: "string \<Rightarrow> ('b, 'r) tape \<Rightarrow> registry \<Rightarrow> exn + registry" where
  "adj_forget n t r =
     (case versions r n of
        None \<Rightarrow> Inr r
      | Some v \<Rightarrow>
          if variable_known t (mk_variable n v) then Inl StateError
          else Inr (r\<lparr>versions := (versions r)(n := None)\<rparr>))"

fun adj_forget_list :: "string list \<Rightarrow> ('b, 'r) tape \<Rightarrow> registry \<Rightarrow> exn + registry" where
  "adj_forget_list [] t r = Inr r"
| "adj_forget_list (n # ns) t r =
     (case adj_forget n t r of Inl e \<Rightarrow> Inl e | Inr r1 \<Rightarrow> adj_forget_list ns t r1)"

text \<open>
  Modelled from the spec: \<open>register_initial_conditions\<close> (module \<open>solving\<close>) is not part
  of the sources. Sections 3 and 4.4: a dependency that is not yet known is a pure
  initial condition; it is declared to the tape by an equation of its own (built by
  \<open>mk\<close> from the coefficient and its variable), and the return points of
  \<open>register_initial_condition\<close> retain their values. A dependency that is already
  known is left alone.
\<close>

fun register_initial_conditions ::
  "('c \<Rightarrow> variable \<Rightarrow> ('b, 'r) equation) \<Rightarrow> ('c \<Rightarrow> vec) \<Rightarrow> ('c \<times> variable) list
     \<Rightarrow> ('b, 'r) tape \<Rightarrow> exn + ('b, 'r) tape" where
  "register_initial_conditions mk val [] t = Inr t"
| "register_initial_conditions mk val ((c, dep) # rest) t =
     (if variable_known t dep then register_initial_conditions mk val rest t
      else
        (case register_equation (mk c dep) t of
           Inl e \<Rightarrow> Inl e
         | Inr (cs, t1) \<Rightarrow>
             register_initial_conditions mk val rest
               (record_variable dep (val c) (do_checkpoint cs dep t1))))"

section \<open>dolfin\_adjoint/function.py\<close>

subsection \<open>Expressions\<close>

text \<open>
  What \<open>Function.assign\<close> may be handed: a Function, or a UFL expression. A
  \<open>MultiIndex\<close> is kept as the number of its indices (its \<open>len\<close>, which decides its
  truth value) and the dimensions of its free indices. A \<open>Constant\<close> carries its
  identity, its values and its rank. \<open>OtherExpr\<close> stands for every other class of
  object (an Expression, a number, ...), with its identity.
\<close>

datatype multi_index = MultiIndex nat "nat list"

fun mi_len :: "multi_index \<Rightarrow> nat" where
  "mi_len (MultiIndex n ds) = n"

fun index_dimensions :: "multi_index \<Rightarrow> nat list" where
  "index_dimensions (MultiIndex n ds) = ds"

datatype expr =
    Function func
  | ScalarValue real
  | Constant nat "real list" nat
  | Sum_ufl "expr list"
  | Product expr expr
  | Division expr expr
  | ComponentTensor expr multi_index
  | Indexed expr multi_index
  | OtherExpr nat

definition same_multi_index :: "multi_index \<Rightarrow> multi_index \<Rightarrow> bool" where
  "same_multi_index x y =
     (length (index_dimensions x) = length (index_dimensions y)
      \<and> index_dimensions x = index_dimensions y)"

text \<open>
  \<open>float(scalar)\<close>: the value of a UFL scalar; for a Constant, the single value of a
  scalar Constant, and TypeError for a Constant with a shape.
\<close>

fun py_float :: "expr \<Rightarrow> exn + real" where
  "py_float (ScalarValue x) = Inr x"
| "py_float (Constant c xs rank) =
     (case xs of [x] \<Rightarrow> (if rank = 0 then Inr x else Inl TypeError) | _ \<Rightarrow> Inl TypeError)"
| "py_float e = Inl TypeError"

text \<open>The two tests on the scalar factor, as \<open>_check_mul_and_division\<close> writes them.\<close>

fun product_scalar :: "expr \<Rightarrow> bool" where
  "product_scalar (ScalarValue x) = True"
| "product_scalar (Constant c xs rank) = (length xs = 1)"
| "product_scalar e = False"

fun division_scalar :: "expr \<Rightarrow> bool" where
  "division_scalar (ScalarValue x) = True"
| "division_scalar (Constant c xs rank) = (rank = 1)"
| "division_scalar e = False"

text \<open>
  The first part of \<open>_check_mul_and_division\<close>: split the expression into the
  remaining expression and the updated weight.
\<close>

fun split_scalar :: "expr \<Rightarrow> real \<Rightarrow> exn + expr \<times> real" where
  "split_scalar (Product a b) w =
     (if product_scalar a then
        (case py_float a of Inl e \<Rightarrow> Inl e | Inr x \<Rightarrow> Inr (b, w * x))
      else if product_scalar b then
        (case py_float b of Inl e \<Rightarrow> Inl e | Inr x \<Rightarrow> Inr (a, w * x))
      else Inl AssertionError)"
| "split_scalar (Division a b) w =
     (if \<not> division_scalar b then Inl AssertionError
      else
        (case py_float b of
           Inl e \<Rightarrow> Inl e
         | Inr x \<Rightarrow> if x = 0 then Inl ZeroDivisionError else Inr (a, w / x)))"
| "split_scalar e w = Inl AssertionError"

text \<open>
  The second part: with a non-empty multi-index, the expression must be an
  \<open>Indexed\<close> with the same multi-index, and is unpacked; \<open>multi_index2\<close> is bound only
  then.
\<close>

fun unpack_indexed ::
  "multi_index option \<Rightarrow> expr \<Rightarrow> exn + expr \<times> multi_index option" where
  "unpack_indexed None e = Inr (e, None)"
| "unpack_indexed (Some mi) e =
     (if mi_len mi = 0 then Inr (e, None)
      else
        (case e of
           Indexed e1 mi2 \<Rightarrow>
             if \<not> same_multi_index mi mi2 then Inl AssertionError else Inr (e1, Some mi2)
         | _ \<Rightarrow> Inl AssertionError))"

text \<open>
  The third part, for a \<open>ComponentTensor\<close>: unpack it and compare its multi-index
  with \<open>multi_index2\<close>, which is unbound if the second part did not bind it; the
  function \<open>_error\<close> it calls on a mismatch is not defined anywhere.
\<close>

fun unpack_tensor ::
  "expr \<Rightarrow> multi_index option \<Rightarrow> multi_index option \<Rightarrow> exn + expr \<times> multi_index option" where
  "unpack_tensor (ComponentTensor e1 mi1) mi mi2 =
     (case mi2 of
        None \<Rightarrow> Inl (UnboundLocalError ''multi_index2'')
      | Some m2 \<Rightarrow> if \<not> same_multi_index mi1 m2 then Inl (NameError ''_error'') else Inr (e1, Some mi1))"
| "unpack_tensor e mi mi2 = Inr (e, mi)"

lemma split_scalar_size [termination_simp]:
  "split_scalar e w = Inr (e1, w1) \<Longrightarrow> size e1 < size e"
  by (cases e) (auto split: if_splits sum.splits)

lemma unpack_indexed_size [termination_simp]:
  "unpack_indexed mi e = Inr (e1, mi2) \<Longrightarrow> size e1 \<le> size e"
  by (cases mi; cases e) (auto split: if_splits)

text \<open>
  \<open>_check_and_extract_functions\<close>, \<open>_check_mul_and_division\<close> and the loop over the
  operands of a sum. The list \<open>linear_comb\<close> is returned extended.
\<close>

function
  check_and_extract_functions ::
    "expr \<Rightarrow> (func \<times> real) list \<Rightarrow> real \<Rightarrow> multi_index option \<Rightarrow> exn + (func \<times> real) list" and
  check_mul_and_division ::
    "expr \<Rightarrow> (func \<times> real) list \<Rightarrow> real \<Rightarrow> multi_index option \<Rightarrow> exn + (func \<times> real) list" and
  extract_operands ::
    "expr list \<Rightarrow> (func \<times> real) list \<Rightarrow> real \<Rightarrow> multi_index option \<Rightarrow> exn + (func \<times> real) list"
where
  "check_and_extract_functions e linear_comb scalar_weight multi_index =
     (case e of
        Function f \<Rightarrow> Inr (linear_comb @ [(f, scalar_weight)])
      | Product a b \<Rightarrow> check_mul_and_division e linear_comb scalar_weight multi_index
      | Division a b \<Rightarrow> check_mul_and_division e linear_comb scalar_weight multi_index
      | ComponentTensor e1 mi1 \<Rightarrow> check_mul_and_division e1 linear_comb scalar_weight (Some mi1)
      | Sum_ufl ops \<Rightarrow> extract_operands ops linear_comb scalar_weight multi_index
      | _ \<Rightarrow> Inl AssertionError)"
| "check_mul_and_division e linear_comb scalar_weight multi_index =
     (case split_scalar e scalar_weight of
        Inl err \<Rightarrow> Inl err
      | Inr (expr0, w) \<Rightarrow>
     (case unpack_indexed multi_index expr0 of
        Inl err \<Rightarrow> Inl err
      | Inr (expr1, multi_index2) \<Rightarrow>
     (case expr1 of
        Function f \<Rightarrow> Inr (linear_comb @ [(f, w)])
      | _ \<Rightarrow>
     (if \<not> (case expr1 of ComponentTensor x y \<Rightarrow> True | Product x y \<Rightarrow> True
              | Division x y \<Rightarrow> True | Sum_ufl xs \<Rightarrow> True | _ \<Rightarrow> False)
      then Inl AssertionError
      else
     (case unpack_tensor expr1 multi_index multi_index2 of
        Inl err \<Rightarrow> Inl err
      | Inr (expr2, mi) \<Rightarrow>
     (case expr2 of
        Product a b \<Rightarrow> check_mul_and_division expr2 linear_comb w mi
      | Division a b \<Rightarrow> check_mul_and_division expr2 linear_comb w mi
      | Sum_ufl ops \<Rightarrow> check_and_extract_functions expr2 linear_comb w mi
      | _ \<Rightarrow> Inl AssertionError))))))"
| "extract_operands [] linear_comb scalar_weight multi_index = Inr linear_comb"
| "extract_operands (op # ops) linear_comb scalar_weight multi_index =
     (case check_and_extract_functions op linear_comb scalar_weight multi_index of
        Inl err \<Rightarrow> Inl err
      | Inr lc \<Rightarrow> extract_operands ops lc scalar_weight multi_index)"
  by pat_completeness auto
termination
proof (relation "measure (\<lambda>x. case x of
          Inl (e, lc, w, mi) \<Rightarrow> 2 * size e + 1
        | Inr (Inl (e, lc, w, mi)) \<Rightarrow> 2 * size e
        | Inr (Inr (ops, lc, w, mi)) \<Rightarrow> 2 * size_list size ops + 2)")
qed (auto dest!: split_scalar_size unpack_indexed_size split: option.splits if_splits)

declare check_and_extract_functions.simps [simp del] check_mul_and_division.simps [simp del]

subsection \<open>The world of function.py\<close>

datatype block = IdentityBlock nat

record LinComRHS =
  lc_fn_space :: nat
  lc_functions :: "expr list"
  lc_weights :: "real list"
  lc_deps :: "variable list"

datatype rhs = LinCom LinComRHS | InitialRHS expr

text \<open>
  The mutable state the module works on: the values of the Function objects, the
  counter from which new objects get their identity, the registry and the tape.
\<close>

record world =
  heap :: "nat \<Rightarrow> vec"
  next_id :: nat
  adj_variables :: registry
  adjointer :: "(block, rhs) tape"

text \<open>
  The external collaborators of function.py: the backend's name and version, its
  parameters \<open>record_all\<close> and \<open>symmetric_bcs\<close>, \<open>utils.to_annotate\<close>, the values the
  backend's own \<open>Function.assign\<close> gives the target for a right-hand side,
  \<open>Function.copy\<close>, the name of a newly created Function, \<open>str\<close> of a function space
  and of an expression that is not a Function, and the LU solve with the mass matrix
  of a space.
\<close>

record fbackend =
  backend_name :: string
  backend_version :: string
  record_all :: bool
  symmetric_bcs :: bool
  to_annotate :: "bool option \<Rightarrow> exn + bool"
  assign_values :: "expr \<Rightarrow> (nat \<Rightarrow> vec) \<Rightarrow> exn + vec"
  function_copy :: "func \<Rightarrow> world \<Rightarrow> func \<times> world"
  fresh_name :: "nat \<Rightarrow> string"
  fs_str :: "nat \<Rightarrow> string"
  ufl_str :: "expr \<Rightarrow> string"
  mass_solve :: "nat \<Rightarrow> vec \<Rightarrow> vec"

definition expr_str :: "fbackend \<Rightarrow> expr \<Rightarrow> string" where
  "expr_str B e = (case e of Function f \<Rightarrow> adj_name f | _ \<Rightarrow> ufl_str B e)"

text \<open>\<open>dolfin_assign\<close>: the backend's assign, without annotation.\<close>

definition dolfin_assign :: "fbackend \<Rightarrow> func \<Rightarrow> expr \<Rightarrow> world \<Rightarrow> (exn + unit) \<times> world" where
  "dolfin_assign B self other w =
     (case assign_values B other (heap w) of
        Inl e \<Rightarrow> (Inl e, w)
      | Inr v \<Rightarrow> (Inr (), w\<lparr>heap := (heap w)(fid self := v)\<rparr>))"

text \<open>\<open>backend.Function(fn_space)\<close>: a new object.\<close>

definition new_function :: "fbackend \<Rightarrow> nat \<Rightarrow> world \<Rightarrow> func \<times> world" where
  "new_function B fs w =
     (\<lparr>fid = next_id w, adj_name = fresh_name B (next_id w), fn_space = fs\<rparr>,
      w\<lparr>heap := (heap w)(next_id w := []), next_id := Suc (next_id w)\<rparr>)"

subsection \<open>Linear combinations\<close>

text \<open>\<open>funcs.index(func)\<close>: the first position holding the same Function.\<close>

fun index_of :: "func \<Rightarrow> func list \<Rightarrow> nat option" where
  "index_of f [] = None"
| "index_of f (g # gs) =
     (if fid g = fid f then Some 0 else map_option Suc (index_of f gs))"

text \<open>
  The first loop of \<open>_check_and_contract_linear_comb\<close>: every Function must lie in the
  function space of the first one; a Function already present has the weight added to
  its entry, a new one is appended.
\<close>

fun contract_loop ::
  "(func \<times> real) list \<Rightarrow> func list \<Rightarrow> real list \<Rightarrow> nat option \<Rightarrow> exn + func list \<times> real list" where
  "contract_loop [] funcs weights funcspace = Inr (funcs, weights)"
| "contract_loop ((f, weight) # rest) funcs weights funcspace =
     (let fs = (case funcspace of None \<Rightarrow> fn_space f | Some v \<Rightarrow> v)
      in if fn_space f \<noteq> fs then Inl AssertionError
         else
           (case index_of f funcs of
              Some ind \<Rightarrow> contract_loop rest funcs (weights[ind := weights ! ind + weight]) (Some fs)
            | None \<Rightarrow> contract_loop rest (funcs @ [f]) (weights @ [weight]) (Some fs)))"

definition check_and_contract_linear_comb ::
  "fbackend \<Rightarrow> expr \<Rightarrow> func \<Rightarrow> world \<Rightarrow> (exn + (expr \<times> real) list) \<times> world" where
  "check_and_contract_linear_comb B e self w =
     (case check_and_extract_functions e [] 1 None of
        Inl err \<Rightarrow> (Inl err, w)
      | Inr linear_comb \<Rightarrow>
          (case contract_loop linear_comb [] [] None of
             Inl err \<Rightarrow> (Inl err, w)
           | Inr (funcs, weights) \<Rightarrow>
               (case index_of self funcs of
                  None \<Rightarrow> (Inr (zip (map Function funcs) weights), w)
                | Some ind \<Rightarrow>
                    (let (c, w1) = function_copy B self w
                     in (Inr (zip (map Function (funcs[ind := c])) weights), w1)))))"

subsection \<open>LinComRHS\<close>

definition LinComRHS_init ::
  "fbackend \<Rightarrow> expr list \<Rightarrow> real list \<Rightarrow> nat \<Rightarrow> registry \<Rightarrow> LinComRHS \<times> registry" where
  "LinComRHS_init B functions weights fs r =
     (let (deps, r1) = adj_current_list (map (expr_str B) functions) r
      in (\<lparr>lc_fn_space = fs, lc_functions = functions, lc_weights = weights, lc_deps = deps\<rparr>, r1))"

definition vadd :: "vec \<Rightarrow> vec \<Rightarrow> vec" where
  "vadd x y = map (\<lambda>(a, b). a + b) (zip x y)"

text \<open>\<open>LinComRHS.__call__\<close>, on the values: \<open>sum(agh[1:], agh[0])\<close>.\<close>

definition LinComRHS_call :: "LinComRHS \<Rightarrow> variable list \<Rightarrow> vec list \<Rightarrow> exn + vec" where
  "LinComRHS_call self dependencies values =
     (let agh = map (\<lambda>(weight, v). scale weight v) (zip (lc_weights self) values)
      in case agh of [] \<Rightarrow> Inl IndexError | a # rest \<Rightarrow> Inr (foldl vadd a rest))"

fun list_index :: "'a list \<Rightarrow> 'a \<Rightarrow> nat option" where
  "list_index [] x = None"
| "list_index (y # ys) x = (if y = x then Some 0 else map_option Suc (list_index ys x))"

text \<open>
  What \<open>derivative_action\<close> returns in \<open>adjlinalg.Vector\<close>: a Function, or (with
  symmetric boundary conditions) the form \<open>inner(riesz, v)*dx\<close>, kept as the space and
  the values of \<open>riesz\<close>.
\<close>

datatype adj_vector = VectorFunction func | VectorForm nat vec

subsection \<open>The annotated assignment\<close>

text \<open>\<open>self is other\<close>: the same object.\<close>

definition is_same_object :: "func \<Rightarrow> expr \<Rightarrow> bool" where
  "is_same_object self other = (case other of Function g \<Rightarrow> fid g = fid self | _ \<Rightarrow> False)"

definition is_Function :: "expr \<Rightarrow> bool" where
  "is_Function e = (case e of Function g \<Rightarrow> True | _ \<Rightarrow> False)"

definition is_Sum_or_Product :: "expr \<Rightarrow> bool" where
  "is_Sum_or_Product e = (case e of Sum_ufl xs \<Rightarrow> True | Product a b \<Rightarrow> True | _ \<Rightarrow> False)"

text \<open>The equation of a pure initial condition, and the value its coefficient has.\<close>

definition mk_initial :: "expr \<Rightarrow> variable \<Rightarrow> (block, rhs) equation" where
  "mk_initial c dep = \<lparr>eq_var = dep, eq_blocks = [], eq_targets = [dep], eq_rhs = InitialRHS c\<rparr>"

definition coefficient_value :: "(nat \<Rightarrow> vec) \<Rightarrow> expr \<Rightarrow> vec" where
  "coefficient_value h c = (case c of Function f \<Rightarrow> h (fid f) | _ \<Rightarrow> [])"

text \<open>
  The second half of \<open>dolfin_adjoint_assign\<close>, from \<open>functions, weights = zip(*lincom)\<close>
  to the end.
\<close>

definition assign_annotated ::
  "fbackend \<Rightarrow> func \<Rightarrow> expr \<Rightarrow> bool option \<Rightarrow> (expr \<times> real) list \<Rightarrow> world \<Rightarrow> (exn + unit) \<times> world" where
  "assign_annotated B self other annotate lincom w =
     (if lincom = [] then (Inl ValueError, w)
      else
        (let functions = map fst lincom;
             weights = map snd lincom;
             (self_var, r1) = adj_current (adj_name self) (adj_variables w);
             (function_vars, r2) = adj_current_list (map (expr_str B) functions) r1;
             w2 = w\<lparr>adj_variables := r2\<rparr>
         in if list_ex (\<lambda>fv. \<not> variable_known (adjointer w2) fv) function_vars
               \<and> \<not> variable_known (adjointer w2) self_var \<and> annotate \<noteq> Some True
            then
              (case adj_forget_list (map (expr_str B) functions) (adjointer w2) r2 of
                 Inl e \<Rightarrow> (Inl e, w2)
               | Inr r3 \<Rightarrow>
                   (case adj_forget (adj_name self) (adjointer w2) r3 of
                      Inl e \<Rightarrow> (Inl e, w2\<lparr>adj_variables := r3\<rparr>)
                    | Inr r4 \<Rightarrow> dolfin_assign B self other (w2\<lparr>adj_variables := r4\<rparr>)))
            else
              (case (if \<not> variable_known (adjointer w2) self_var
                     then adj_forget (adj_name self) (adjointer w2) r2 else Inr r2) of
                 Inl e \<Rightarrow> (Inl e, w2)
               | Inr r3 \<Rightarrow>
                   (case dolfin_assign B self other (w2\<lparr>adj_variables := r3\<rparr>) of
                      (Inl e, w3) \<Rightarrow> (Inl e, w3)
                    | (Inr out, w3) \<Rightarrow>
                        (let fs = fn_space self;
                             identity_block = IdentityBlock fs;
                             (dep, r4) = adj_next (adj_name self) (adj_variables w3);
                             t1 = (if record_all B
                                   then record_variable dep (heap w3 (fid self)) (adjointer w3)
                                   else adjointer w3);
                             (rhs, r5) = LinComRHS_init B functions weights fs r4
                         in case register_initial_conditions mk_initial (coefficient_value (heap w3))
                                   (zip (lc_functions rhs) (lc_deps rhs)) t1 of
                              Inl e \<Rightarrow> (Inl e, w3\<lparr>adj_variables := r5, adjointer := t1\<rparr>)
                            | Inr t2 \<Rightarrow>
                                (case register_equation
                                        \<lparr>eq_var = dep, eq_blocks = [identity_block],
                                         eq_targets = [dep], eq_rhs = LinCom rhs\<rparr> t2 of
                                   Inl e \<Rightarrow> (Inl e, w3\<lparr>adj_variables := r5, adjointer := t2\<rparr>)
                                 | Inr (cs, t3) \<Rightarrow>
                                     (Inr out,
                                      w3\<lparr>adj_variables := r5,
                                         adjointer := do_checkpoint cs dep t3\<rparr>)))))))"

definition dolfin_adjoint_assign ::
  "fbackend \<Rightarrow> func \<Rightarrow> expr \<Rightarrow> bool option \<Rightarrow> world \<Rightarrow> (exn + unit) \<times> world" where
  "dolfin_adjoint_assign B self other annotate w =
     (if is_same_object self other then (Inr (), w)
      else
        (case to_annotate B annotate of
           Inl e \<Rightarrow> (Inl e, w)
         | Inr to_ann \<Rightarrow>
             if \<not> to_ann then dolfin_assign B self other w
             else
               (case (if is_Sum_or_Product other then
                        (if backend_name B \<noteq> ''dolfin'' then
                           (Inl (LibadjointErrorNotImplemented
                              ''Cannot use Function.assign(linear combination of other Functions) yet.''),
                            w)
                         else check_and_contract_linear_comb B other self w)
                      else (Inr [(other, 1)], w)) of
                  (Inl e, w1) \<Rightarrow> (Inl e, w1)
                | (Inr lincom, w1) \<Rightarrow>
                    if \<not> is_Function other \<and> annotate \<noteq> Some True
                    then dolfin_assign B self other w1
                    else if (case other of
                               Function g \<Rightarrow> fs_str B (fn_space self) \<noteq> fs_str B (fn_space g)
                             | _ \<Rightarrow> False)
                    then dolfin_assign B self other w1
                    else assign_annotated B self other annotate lincom w1)))"

text \<open>
  \<open>LinComRHS.derivative_action\<close>. \<open>out.assign\<close> is the assign of this module (the
  backend's method is replaced by it), called without an \<open>annotate\<close> argument; the
  product of the weight and the contraction vector is the UFL product of a scalar and
  a Function. The LU solver kept in \<open>fsp_lu\<close> acts as \<open>mass_solve\<close>.
\<close>

definition LinComRHS_derivative_action ::
  "fbackend \<Rightarrow> LinComRHS \<Rightarrow> variable list \<Rightarrow> vec list \<Rightarrow> variable \<Rightarrow> func \<Rightarrow> bool \<Rightarrow> world
     \<Rightarrow> (exn + adj_vector) \<times> world" where
  "LinComRHS_derivative_action B self dependencies values variable contraction_vector hermitian w =
     (case list_index dependencies variable of
        None \<Rightarrow> (Inl ValueError, w)
      | Some idx \<Rightarrow>
          if symmetric_bcs B \<and> backend_version B > ''1.2.0'' then
            (if idx < length (lc_weights self) then
               (Inr (VectorForm (fn_space contraction_vector)
                       (mass_solve B (fn_space contraction_vector)
                          (scale (lc_weights self ! idx) (heap w (fid contraction_vector))))), w)
             else (Inl IndexError, w))
          else
            (let (out, w1) = new_function B (lc_fn_space self) w
             in if idx < length (lc_weights self) then
                  (case dolfin_adjoint_assign B out
                          (Product (ScalarValue (lc_weights self ! idx)) (Function contraction_vector))
                          None w1 of
                     (Inl e, w2) \<Rightarrow> (Inl e, w2)
                   | (Inr u, w2) \<Rightarrow> (Inr (VectorFunction out), w2))
                else (Inl IndexError, w1)))"

subsection \<open>A concrete backend and world, for evaluating examples\<close>

text \<open>
  The example backend is dolfin with annotation on; its assign gives the target the
  values of a Function, of a scalar multiple of a Function, or of the sum of two such
  multiples.
\<close>

fun example_values :: "expr \<Rightarrow> (nat \<Rightarrow> vec) \<Rightarrow> exn + vec" where
  "example_values (Function f) h = Inr (h (fid f))"
| "example_values (Product (ScalarValue c) (Function f)) h = Inr (scale c (h (fid f)))"
| "example_values
     (Sum_ufl [Product (ScalarValue c) (Function f), Product (ScalarValue d) (Function g)]) h =
     Inr (vadd (scale c (h (fid f))) (scale d (h (fid g))))"
| "example_values e h = Inl (BackendError ''assign'')"

definition example_fbackend :: fbackend where
  "example_fbackend =
     \<lparr>backend_name = ''dolfin'', backend_version = ''2016.1.0'', record_all = True,
      symmetric_bcs = False,
      to_annotate = (\<lambda>a. Inr (case a of None \<Rightarrow> True | Some b \<Rightarrow> b)),
      assign_values = example_values,
      function_copy = (\<lambda>f w. (f\<lparr>fid := next_id w\<rparr>,
         w\<lparr>heap := (heap w)(next_id w := heap w (fid f)), next_id := Suc (next_id w)\<rparr>)),
      fresh_name = (\<lambda>n. ''f_'' @ replicate n (CHR ''i'')),
      fs_str = (\<lambda>n. ''V'' @ replicate n (CHR ''i'')),
      ufl_str = (\<lambda>e. ''expr''),
      mass_solve = (\<lambda>V v. v)\<rparr>"

definition func_a :: func where
  "func_a = \<lparr>fid = 0, adj_name = ''a'', fn_space = 0\<rparr>"

definition func_b :: func where
  "func_b = \<lparr>fid = 1, adj_name = ''b'', fn_space = 0\<rparr>"

definition func_y :: func where
  "func_y = \<lparr>fid = 2, adj_name = ''y'', fn_space = 0\<rparr>"

definition func_v :: func where
  "func_v = \<lparr>fid = 3, adj_name = ''v'', fn_space = 0\<rparr>"

definition example_world :: world where
  "example_world =
     \<lparr>heap = (\<lambda>n. if n = 0 then [1, 2] else if n = 1 then [10, 20]
                   else if n = 3 then [5, 7] else []),
      next_id = 4,
      adj_variables = \<lparr>versions = Map.empty, cur_timestep = 0\<rparr>,
      adjointer = \<lparr>tape_state = BUILDING, equations = [], storage = Map.empty, retained = []\<rparr>\<rparr>"

text \<open>The right-hand side \<open>2*a + 3*b\<close>, with its operands in either order.\<close>

definition two_a_plus_three_b :: "func \<Rightarrow> func \<Rightarrow> expr" where
  "two_a_plus_three_b a b =
     Sum_ufl [Product (ScalarValue 2) (Function a), Product (ScalarValue 3) (Function b)]"

definition three_b_plus_two_a :: "func \<Rightarrow> func \<Rightarrow> expr" where
  "three_b_plus_two_a a b =
     Sum_ufl [Product (ScalarValue 3) (Function b), Product (ScalarValue 2) (Function a)]"

section \<open>matrix\_free.py\<close>

subsection \<open>Objects\<close>

text \<open>
  Modelled from the spec: the module \<open>expressions\<close> is not part of the sources.
  Section 4.5, step 1: registration freezes the current values of the expression
  dependencies into a snapshot. The store holds, for each registered expression
  (by identity) and attribute name, the current value; \<open>freeze_dict\<close> returns a copy of
  it, and \<open>update_expressions\<close> sets every attribute the snapshot holds back to the
  value it holds, leaving the others as they are.
\<close>

type_synonym estore = "nat \<times> string \<rightharpoonup> real"

definition freeze_dict :: "estore \<Rightarrow> estore" where
  "freeze_dict s = s"

definition update_expressions :: "estore \<Rightarrow> estore \<Rightarrow> estore" where
  "update_expressions d s = s ++ d"

text \<open>
  The user's matrix-free operator \<open>A\<close>: its hash, and the methods it has (\<open>None\<close>: the
  attribute is missing). The methods read the operator's own state (\<open>'os\<close>, which
  \<open>set_dependencies\<close> updates) and the current values of the expressions.
\<close>

record 'os operator =
  op_hash :: nat
  op_mult :: "'os \<Rightarrow> estore \<Rightarrow> vec \<Rightarrow> vec"
  op_transpmult :: "('os \<Rightarrow> estore \<Rightarrow> vec \<Rightarrow> vec) option"
  op_dependencies :: "coefficient list option"
  op_set_dependencies :: "(variable list \<Rightarrow> vec list \<Rightarrow> 'os \<Rightarrow> 'os) option"
  op_derivative_action :: "('os \<Rightarrow> estore \<Rightarrow> vec \<Rightarrow> vec \<Rightarrow> bool \<Rightarrow> vec \<Rightarrow> real \<Rightarrow> vec) option"

text \<open>
  The vector \<open>x\<close>: the Function object whose values it holds, and its \<open>function\<close>
  attribute if it has one. The right-hand side \<open>b\<close>: its values, and its \<open>form\<close> and
  \<open>bcs\<close> attributes if it has them.
\<close>

record xvector =
  x_owner :: nat
  x_function :: "func option"

record 'bc bvector =
  b_values :: vec
  b_form :: "form option"
  b_bcs :: "'bc list option"

text \<open>
  The external collaborators of matrix\_free.py. \<open>krylov_solve\<close> is
  \<open>dolfin.PETScKrylovSolver(*parameters).solve\<close>: given the solver parameters, the
  operator's \<open>mult\<close> and \<open>transpmult\<close> actions, the initial \<open>x\<close> and the right-hand
  side, it returns the number of iterations and the new \<open>x\<close>, or raises. The others are
  \<open>isinstance(bc, DirichletBC)\<close>, \<open>dolfin.homogenize\<close>, \<open>bc.apply\<close> on a vector,
  \<open>dolfin.assemble\<close> of a linear form, the dimension of a function space,
  \<open>hashlib.md5(str(h)).hexdigest()\<close>, and \<open>solving.debugging["record_all"]\<close>.
\<close>

record 'bc mf_backend =
  krylov_solve ::
    "string list \<Rightarrow> (vec \<Rightarrow> vec) \<Rightarrow> (vec \<Rightarrow> vec) option \<Rightarrow> vec \<Rightarrow> vec \<Rightarrow> exn + nat \<times> vec"
  is_DirichletBC :: "'bc \<Rightarrow> bool"
  homogenize :: "'bc \<Rightarrow> 'bc"
  bc_apply :: "'bc \<Rightarrow> vec \<Rightarrow> vec"
  assemble_vector :: "form \<Rightarrow> (nat \<Rightarrow> vec) \<Rightarrow> vec"
  space_dim :: "nat \<Rightarrow> nat"
  md5_hexdigest :: "nat \<Rightarrow> string"
  debugging_record_all :: bool

text \<open>
  The diagonal block of the registered equation. Its two callbacks are closures; the
  block keeps what they capture: the operator, \<open>b\<close>, \<open>x\<close>, the solver parameters and
  the frozen expressions.
\<close>

record ('os, 'bc) diag_block =
  db_name :: string
  db_dependencies :: "variable list"
  db_A :: "'os operator"
  db_b :: "'bc bvector"
  db_x :: xvector
  db_solver_parameters :: "string list"
  db_frozen :: estore

text \<open>
  Modelled from the spec: \<open>solving.RHS\<close> is not part of the sources. Section 4.2:
  \<open>coefficients()\<close> and \<open>dependencies()\<close> are the static introspection of the
  right-hand side; for a form they are its coefficients that have a function space
  (the selection every use in the sources makes) and their current variables.
\<close>

datatype mf_rhs = RHS form "variable list" | InitialCondition coefficient

definition RHS_coefficients :: "form \<Rightarrow> coefficient list" where
  "RHS_coefficients f = filter has_function_space (extract_coefficients f)"

definition RHS_init :: "form \<Rightarrow> registry \<Rightarrow> mf_rhs \<times> variable list \<times> registry" where
  "RHS_init f r =
     (let (deps, r1) = adj_current_list (map coeff_str (RHS_coefficients f)) r
      in (RHS f deps, deps, r1))"

record ('os, 'bc) mf_world =
  mf_heap :: "nat \<Rightarrow> vec"
  mf_expressions :: estore
  mf_opstate :: 'os
  mf_variables :: registry
  mf_adjointer :: "(('os, 'bc) diag_block, mf_rhs) tape"

text \<open>\<open>MatrixFree\<close>: a \<open>solving.Matrix\<close> with a function space.\<close>

record ('os, 'bc) MatrixFree =
  mf_data :: "'os operator"
  mf_fn_space :: nat
  mf_bcs :: "'bc list"
  mf_solver_parameters :: "string list"

subsection \<open>MatrixFree.solve\<close>

text \<open>
  The actions of an operator object at the moment they are called: its methods are
  bound to the user's operator, whose state and expressions they read then.
\<close>

definition operator_actions ::
  "'os operator \<Rightarrow> ('os, 'bc) mf_world \<Rightarrow> (vec \<Rightarrow> vec) \<times> (vec \<Rightarrow> vec) option" where
  "operator_actions A w =
     (op_mult A (mf_opstate w) (mf_expressions w),
      map_option (\<lambda>tm. tm (mf_opstate w) (mf_expressions w)) (op_transpmult A))"

definition MatrixFree_solve ::
  "'bc mf_backend \<Rightarrow> ('os, 'bc) MatrixFree \<Rightarrow> variable \<Rightarrow> form \<Rightarrow> ('os, 'bc) mf_world \<Rightarrow> exn + vec" where
  "MatrixFree_solve B self var b w =
     (let x0 = replicate (space_dim B (mf_fn_space self)) 0;
          rhs = fold (bc_apply B) (mf_bcs self) (assemble_vector B b (mf_heap w));
          (m, tm) = operator_actions (mf_data self) w
      in case krylov_solve B (mf_solver_parameters self) m tm x0 rhs of
           Inl e \<Rightarrow> Inl e
         | Inr (n, xv) \<Rightarrow> Inr xv)"

text \<open>\<open>MatrixFree.axpy\<close> always raises.\<close>

definition MatrixFree_axpy :: "('os, 'bc) MatrixFree \<Rightarrow> real \<Rightarrow> 'x \<Rightarrow> exn + unit" where
  "MatrixFree_axpy self alpha x =
     Inl (LibadjointErrorNotImplemented ''Can't add to a matrix-free matrix .. '')"

subsection \<open>The callbacks of the diagonal block\<close>

text \<open>
  \<open>diag_assembly_cb(dependencies, values, hermitian, coefficient, context)\<close>: returns
  the pair of the matrix and the (empty) right-hand side vector of the function space.
\<close>

definition diag_assembly_cb ::
  "'bc mf_backend \<Rightarrow> ('os, 'bc) diag_block \<Rightarrow> variable list \<Rightarrow> vec list \<Rightarrow> bool \<Rightarrow> real \<Rightarrow> 'c
     \<Rightarrow> ('os, 'bc) mf_world \<Rightarrow> (exn + ('os, 'bc) MatrixFree \<times> nat) \<times> ('os, 'bc) mf_world" where
  "diag_assembly_cb B blk dependencies values hermitian coefficient ctx w =
     (if coefficient \<noteq> 1 then (Inl AssertionError, w)
      else
        (let A = db_A blk;
             w1 = w\<lparr>mf_expressions := update_expressions (db_frozen blk) (mf_expressions w)\<rparr>
         in case (if length dependencies > 0 then
                    (case op_set_dependencies A of
                       None \<Rightarrow> Inl (AttributeError ''set_dependencies'')
                     | Some sd \<Rightarrow> Inr (w1\<lparr>mf_opstate := sd dependencies values (mf_opstate w1)\<rparr>))
                  else Inr w1) of
              Inl e \<Rightarrow> (Inl e, w1)
            | Inr w2 \<Rightarrow>
                if hermitian then
                  (case op_transpmult A of
                     None \<Rightarrow> (Inl (AttributeError ''transpmult''), w2)
                   | Some tm \<Rightarrow>
                       (case b_bcs (db_b blk) of
                          None \<Rightarrow> (Inl (AttributeError ''bcs''), w2)
                        | Some bcs \<Rightarrow>
                            (case x_function (db_x blk) of
                               None \<Rightarrow> (Inl (AttributeError ''function''), w2)
                             | Some f \<Rightarrow>
                                 (let A_transpose =
                                        A\<lparr>op_transpmult := Some (op_mult A), op_mult := tm\<rparr>;
                                      adjoint_bcs =
                                        map (homogenize B) (filter (is_DirichletBC B) bcs)
                                  in (Inr (\<lparr>mf_data = A_transpose, mf_fn_space = fn_space f,
                                            mf_bcs = adjoint_bcs,
                                            mf_solver_parameters = db_solver_parameters blk\<rparr>,
                                           fn_space f), w2)))))
                else
                  (case x_function (db_x blk) of
                     None \<Rightarrow> (Inl (AttributeError ''function''), w2)
                   | Some f \<Rightarrow>
                       (case b_bcs (db_b blk) of
                          None \<Rightarrow> (Inl (AttributeError ''bcs''), w2)
                        | Some bcs \<Rightarrow>
                            (Inr (\<lparr>mf_data = A, mf_fn_space = fn_space f, mf_bcs = bcs,
                                   mf_solver_parameters = db_solver_parameters blk\<rparr>,
                                  fn_space f), w2)))))"

text \<open>
  \<open>derivative_action(dependencies, values, variable, contraction_vector, hermitian,
  input, coefficient, context)\<close>, which the block has only if the operator has
  dependencies.
\<close>

definition derivative_action_cb ::
  "('os, 'bc) diag_block \<Rightarrow> variable list \<Rightarrow> vec list \<Rightarrow> variable \<Rightarrow> vec \<Rightarrow> bool \<Rightarrow> vec \<Rightarrow> real
     \<Rightarrow> 'c \<Rightarrow> ('os, 'bc) mf_world \<Rightarrow> (exn + vec) \<times> ('os, 'bc) mf_world" where
  "derivative_action_cb blk dependencies values variable contraction_vector hermitian inp
       coefficient ctx w =
     (let A = db_A blk;
          w1 = w\<lparr>mf_expressions := update_expressions (db_frozen blk) (mf_expressions w)\<rparr>
      in case op_set_dependencies A of
           None \<Rightarrow> (Inl (AttributeError ''set_dependencies''), w1)
         | Some sd \<Rightarrow>
             (let w2 = w1\<lparr>mf_opstate := sd dependencies values (mf_opstate w1)\<rparr>
              in case op_derivative_action A of
                   None \<Rightarrow> (Inl (AttributeError ''derivative_action''), w2)
                 | Some da \<Rightarrow>
                     (case list_index dependencies variable of
                        None \<Rightarrow> (Inl ValueError, w2)
                      | Some i \<Rightarrow>
                          if i < length values then
                            (Inr (da (mf_opstate w2) (mf_expressions w2) (values ! i)
                                    contraction_vector hermitian inp coefficient), w2)
                          else (Inl IndexError, w2))))"

definition block_derivative_action ::
  "('os, 'bc) diag_block \<Rightarrow>
     (variable list \<Rightarrow> vec list \<Rightarrow> variable \<Rightarrow> vec \<Rightarrow> bool \<Rightarrow> vec \<Rightarrow> real \<Rightarrow> 'c
        \<Rightarrow> ('os, 'bc) mf_world \<Rightarrow> (exn + vec) \<times> ('os, 'bc) mf_world) option" where
  "block_derivative_action blk =
     (if length (db_dependencies blk) > 0 then Some (derivative_action_cb blk) else None)"

subsection \<open>AdjointPETScKrylovSolver.solve\<close>

definition mf_initial :: "coefficient \<Rightarrow> variable \<Rightarrow> (('os, 'bc) diag_block, mf_rhs) equation" where
  "mf_initial c dep =
     \<lparr>eq_var = dep, eq_blocks = [], eq_targets = [dep], eq_rhs = InitialCondition c\<rparr>"

definition mf_coefficient_value :: "(nat \<Rightarrow> vec) \<Rightarrow> coefficient \<Rightarrow> vec" where
  "mf_coefficient_value h c = (case c of FunctionCoeff f \<Rightarrow> h (fid f) | ConstantCoeff k \<Rightarrow> [])"

definition transpmult_message :: string where
  "transpmult_message =
     ''Your PETScKrylovMatrix class has to implement a .transpmult method as well, as I need the transpose action. Note that if '' @
     ''your forward problem has Dirichlet boundary conditions, the .transpmult MUST impose /homogenous/ Dirichlet boundary conditions '' @
     ''on the resulting vector.''"

text \<open>
  The first \<open>if annotate:\<close> block: the checks and the registration. It returns the new
  variable.
\<close>

definition solve_annotate ::
  "'bc mf_backend \<Rightarrow> string list \<Rightarrow> 'os operator \<Rightarrow> xvector \<Rightarrow> 'bc bvector \<Rightarrow> ('os, 'bc) mf_world
     \<Rightarrow> (exn + variable) \<times> ('os, 'bc) mf_world" where
  "solve_annotate B solver_parameters A x b w =
     (if op_transpmult A = None then (Inl (LibadjointErrorInvalidInputs transpmult_message), w)
      else case x_function x of
        None \<Rightarrow>
          (Inl (LibadjointErrorInvalidInputs
                  ''Your x has to come from code like down_cast(my_function.vector()).''), w)
      | Some xf \<Rightarrow>
      (case b_form b of
        None \<Rightarrow>
          (Inl (LibadjointErrorInvalidInputs
                  ''Your b has to have the .form attribute: was it assembled with from dolfin_adjoint import *?''),
           w)
      | Some bform \<Rightarrow>
          (let coeffs = (case op_dependencies A of
                           None \<Rightarrow> []
                         | Some cs \<Rightarrow> filter has_function_space cs);
               (dependencies, r1) = adj_current_list (map coeff_str coeffs) (mf_variables w);
               w1 = w\<lparr>mf_variables := r1\<rparr>
           in if length dependencies > 0 \<and> op_set_dependencies A = None
              then (Inl AssertionError, w1)
              else
                (let (rhs, rhs_deps, r2) = RHS_init bform r1;
                     diag_name = md5_hexdigest B (op_hash A);
                     w2 = w1\<lparr>mf_variables := r2\<rparr>
                 in case register_initial_conditions mf_initial (mf_coefficient_value (mf_heap w2))
                           (zip (RHS_coefficients bform) rhs_deps @ zip coeffs dependencies)
                           (mf_adjointer w2) of
                      Inl e \<Rightarrow> (Inl e, w2)
                    | Inr t1 \<Rightarrow>
                        (let (var, r3) = adj_next (adj_name xf) r2;
                             frozen_expressions_dict = freeze_dict (mf_expressions w2);
                             diag_block =
                               \<lparr>db_name = diag_name, db_dependencies = dependencies, db_A = A,
                                db_b = b, db_x = x, db_solver_parameters = solver_parameters,
                                db_frozen = frozen_expressions_dict\<rparr>;
                             eqn = \<lparr>eq_var = var, eq_blocks = [diag_block], eq_targets = [var],
                                    eq_rhs = rhs\<rparr>;
                             w3 = w2\<lparr>mf_variables := r3, mf_adjointer := t1\<rparr>
                         in case register_equation eqn t1 of
                              Inl e \<Rightarrow> (Inl e, w3)
                            | Inr (cs, t2) \<Rightarrow>
                                (Inr var, w3\<lparr>mf_adjointer := do_checkpoint cs var t2\<rparr>))))))"

text \<open>The forward solve, \<open>dolfin.PETScKrylovSolver.solve(self, A, x, b)\<close>.\<close>

definition forward_solve ::
  "'bc mf_backend \<Rightarrow> string list \<Rightarrow> 'os operator \<Rightarrow> xvector \<Rightarrow> 'bc bvector \<Rightarrow> ('os, 'bc) mf_world
     \<Rightarrow> (exn + nat) \<times> ('os, 'bc) mf_world" where
  "forward_solve B solver_parameters A x b w =
     (let (m, tm) = operator_actions A w
      in case krylov_solve B solver_parameters m tm (mf_heap w (x_owner x)) (b_values b) of
           Inl e \<Rightarrow> (Inl e, w)
         | Inr (n, xv) \<Rightarrow> (Inr n, w\<lparr>mf_heap := (mf_heap w)(x_owner x := xv)\<rparr>))"

definition AdjointPETScKrylovSolver_solve ::
  "'bc mf_backend \<Rightarrow> string list \<Rightarrow> 'os operator \<Rightarrow> xvector \<Rightarrow> 'bc bvector \<Rightarrow> bool
     \<Rightarrow> ('os, 'bc) mf_world \<Rightarrow> (exn + nat) \<times> ('os, 'bc) mf_world" where
  "AdjointPETScKrylovSolver_solve B solver_parameters A x b annotate w =
     (if annotate then
        (case solve_annotate B solver_parameters A x b w of
           (Inl e, w1) \<Rightarrow> (Inl e, w1)
         | (Inr var, w1) \<Rightarrow>
             (case forward_solve B solver_parameters A x b w1 of
                (Inl e, w2) \<Rightarrow> (Inl e, w2)
              | (Inr out, w2) \<Rightarrow>
                  if debugging_record_all B then
                    (case x_function x of
                       None \<Rightarrow> (Inl (AttributeError ''function''), w2)
                     | Some xf \<Rightarrow>
                         (Inr out,
                          w2\<lparr>mf_adjointer :=
                                record_variable var (mf_heap w2 (fid xf)) (mf_adjointer w2)\<rparr>))
                  else (Inr out, w2)))
      else forward_solve B solver_parameters A x b w)"

subsection \<open>Using the diagonal block\<close>

text \<open>
  Modelled from the spec: the tape's use of a registered block is not part of the
  sources (it is libadjoint's). Section 4.5, step 2: to evaluate, or to take the
  derivative action in the adjoint direction, the tape assembles the block in the
  requested direction (\<open>hermitian\<close>) with coefficient 1 and solves with the matrix the
  assembly callback returned.
\<close>

definition assemble_and_solve ::
  "'bc mf_backend \<Rightarrow> ('os, 'bc) diag_block \<Rightarrow> variable list \<Rightarrow> vec list \<Rightarrow> bool \<Rightarrow> variable \<Rightarrow> form
     \<Rightarrow> ('os, 'bc) mf_world \<Rightarrow> exn + vec" where
  "assemble_and_solve B blk dependencies values hermitian var rb w =
     (case diag_assembly_cb B blk dependencies values hermitian 1 () w of
        (Inl e, w1) \<Rightarrow> Inl e
      | (Inr (M, fs), w1) \<Rightarrow> MatrixFree_solve B M var rb w1)"

subsection \<open>A concrete backend, operator and world, for evaluating examples\<close>

text \<open>
  Boundary conditions of the example backend: a Dirichlet condition lists degrees of
  freedom with the values it imposes, \<open>apply\<close> writes them into the vector and
  \<open>homogenize\<close> sets the values to zero. The example Krylov solver does one Richardson
  step \<open>x + (b - A x)\<close>, which solves a system with the identity operator exactly.
\<close>

datatype example_bc = Dirichlet "(nat \<times> real) list" | OtherBC

fun example_bc_apply :: "example_bc \<Rightarrow> vec \<Rightarrow> vec" where
  "example_bc_apply (Dirichlet ps) v = fold (\<lambda>(i, x) r. r[i := x]) ps v"
| "example_bc_apply OtherBC v = v"

fun example_homogenize :: "example_bc \<Rightarrow> example_bc" where
  "example_homogenize (Dirichlet ps) = Dirichlet (map (\<lambda>(i, x). (i, 0)) ps)"
| "example_homogenize OtherBC = OtherBC"

fun example_is_DirichletBC :: "example_bc \<Rightarrow> bool" where
  "example_is_DirichletBC (Dirichlet ps) = True"
| "example_is_DirichletBC OtherBC = False"

definition vsub :: "vec \<Rightarrow> vec \<Rightarrow> vec" where
  "vsub x y = map (\<lambda>(a, b). a - b) (zip x y)"

definition example_mf_backend :: "example_bc mf_backend" where
  "example_mf_backend =
     \<lparr>krylov_solve = (\<lambda>params m tm x0 b. Inr (1, vadd x0 (vsub b (m x0)))),
      is_DirichletBC = example_is_DirichletBC,
      homogenize = example_homogenize,
      bc_apply = example_bc_apply,
      assemble_vector = (\<lambda>f h. [1, 2]),
      space_dim = (\<lambda>V. 2),
      md5_hexdigest = (\<lambda>n. ''d41d8cd9''),
      debugging_record_all = True\<rparr>"

text \<open>
  The identity operator, which is symmetric and has no dependencies; the same
  operator without a \<open>transpmult\<close> method; and a symmetric operator that multiplies by
  the attribute \<open>t\<close> of expression 0.
\<close>

definition identity_operator :: "unit operator" where
  "identity_operator =
     \<lparr>op_hash = 7, op_mult = (\<lambda>s e v. v), op_transpmult = Some (\<lambda>s e v. v),
      op_dependencies = None, op_set_dependencies = None, op_derivative_action = None\<rparr>"

definition operator_without_transpmult :: "unit operator" where
  "operator_without_transpmult = identity_operator\<lparr>op_transpmult := None\<rparr>"

definition time_scaled_operator :: "unit operator" where
  "time_scaled_operator =
     \<lparr>op_hash = 8,
      op_mult = (\<lambda>s e v. scale (case e (0, ''t'') of Some t \<Rightarrow> t | None \<Rightarrow> 1) v),
      op_transpmult = Some (\<lambda>s e v. scale (case e (0, ''t'') of Some t \<Rightarrow> t | None \<Rightarrow> 1) v),
      op_dependencies = None, op_set_dependencies = None, op_derivative_action = None\<rparr>"

definition func_x :: func where
  "func_x = \<lparr>fid = 5, adj_name = ''x'', fn_space = 0\<rparr>"

definition example_x :: xvector where
  "example_x = \<lparr>x_owner = 5, x_function = Some func_x\<rparr>"

definition example_rhs_form :: form where
  "example_rhs_form = \<lparr>form_id = 2, extract_coefficients = [], extract_arguments = [0]\<rparr>"

definition example_b :: "example_bc bvector" where
  "example_b =
     \<lparr>b_values = [3, 4], b_form = Some example_rhs_form, b_bcs = Some [Dirichlet [(0, 5)]]\<rparr>"

definition example_mf_world :: "(unit, example_bc) mf_world" where
  "example_mf_world =
     \<lparr>mf_heap = (\<lambda>n. [0, 0]),
      mf_expressions = [(0, ''t'') \<mapsto> 2],
      mf_opstate = (),
      mf_variables = \<lparr>versions = Map.empty, cur_timestep = 0\<rparr>,
      mf_adjointer = \<lparr>tape_state = BUILDING, equations = [], storage = Map.empty, retained = []\<rparr>\<rparr>"

definition example_block :: "unit operator \<Rightarrow> (unit, example_bc) diag_block" where
  "example_block A =
     \<lparr>db_name = ''d41d8cd9'', db_dependencies = [], db_A = A, db_b = example_b,
      db_x = example_x, db_solver_parameters = [], db_frozen = [(0, ''t'') \<mapsto> 2]\<rparr>"

definition homogeneous_block :: "(unit, example_bc) diag_block" where
  "homogeneous_block =
     (example_block identity_operator)
       \<lparr>db_b := example_b\<lparr>b_bcs := Some [Dirichlet [(0, 0)]]\<rparr>\<rparr>"

definition example_var :: variable where
  "example_var = \<lparr>var_name = ''x'', timestep = 0, iteration = 0\<rparr>"

section \<open>Results for functional.py\<close>



text \<open>
  C6. \<open>TimeFunctional.__call__\<close> does not return the assembled value: for every
  timestep, dependency list and list of values it raises NameError, because the
  dictionary is built from the unbound name \<open>dolfin_dependencies\<close>.
\<close>

theorem C6_TimeFunctional_call_raises:
  "TimeFunctional_call assemble f tstep dependencies values = Inl (NameError ''dolfin_dependencies'')"
  by (simp add: TimeFunctional_call_def load_name_def functional_module_globals_def)

section \<open>Results for timestepping/caches.py\<close>

lemma assemble_checked_hit:
  "cache (assembly_key B f fcp bcs s z) = Some t \<Longrightarrow> length bcs = 0 \<or> form_rank f = 2 \<Longrightarrow>
   assemble_checked B cache f fcp bcs s z env = (Inr t, cache)"
  by (auto simp: assemble_checked_def assembly_key_def Let_def)

lemma assemble_checked_stores:
  "assemble_checked B cache f fcp bcs s z env = (Inr t, cache1) \<Longrightarrow>
   cache1 (assembly_key B f fcp bcs s z) = Some t"
  by (auto simp: assemble_checked_def assembly_key_def Let_def split: option.splits sum.splits if_splits)

lemma assemble_checked_keeps:
  "assemble_checked B cache f fcp bcs s z env = (res, cache1) \<Longrightarrow> cache k = Some t \<Longrightarrow>
   cache1 k = Some t"
  by (auto simp: assemble_checked_def Let_def split: option.splits sum.splits if_splits)

lemma AssemblyCache_assemble_keeps:
  "AssemblyCache_assemble B cache fa pa ba s z env = (res, cache1) \<Longrightarrow> cache k = Some t \<Longrightarrow>
   cache1 k = Some t"
  by (auto simp: AssemblyCache_assemble_def split: arg.splits if_splits dest: assemble_checked_keeps)

lemma map_filter_the_obj: "List.map_filter the_obj (map Obj xs) = xs"
  by (induction xs) (auto simp: List.map_filter_def)

lemma fold_clear_dep:
  "fold clear_dep deps cache key =
     (if \<exists>dep \<in> set deps. dep \<in> set (extract_coefficients (fst key)) then None else cache key)"
  by (induction deps arbitrary: cache) (auto simp: clear_dep_def)

text \<open>
  C7. \<open>AssemblyCache.assemble\<close> is keyed by the form key, the key of the form
  compiler parameters and the boundary condition key only: after a successful call, a
  call whose arguments have the same key returns the object the first call returned and
  leaves the cache as it is, whatever the coefficient values are by then (the assembly
  routine, which reads them, is not consulted). No call of \<open>assemble\<close> removes an
  entry. \<open>clear()\<close> empties the cache, and \<open>clear(deps)\<close> removes exactly the entries
  whose key form has one of \<open>deps\<close> among its extracted coefficients.
\<close>

theorem C7_assembly_cache:
  "(AssemblyCache_assemble B cache (Obj f1) (Obj p1) (Obj (map Obj bcs1)) s1 z1 env1 = (Inr t, cache1) \<and>
    assembly_key B f2 p2 bcs2 s2 z2 = assembly_key B f1 p1 bcs1 s1 z1 \<and>
    (length bcs2 = 0 \<or> form_rank f2 = 2)
    \<longrightarrow> AssemblyCache_assemble B cache1 (Obj f2) (Obj p2) (Obj (map Obj bcs2)) s2 z2 env2 = (Inr t, cache1)) \<and>
   (AssemblyCache_assemble B c fa pa ba s z env = (res, c') \<and> c k = Some u
    \<longrightarrow> c' k = Some u) \<and>
   AssemblyCache_clear d [] = Inr Map.empty \<and>
   (deps \<noteq> [] \<longrightarrow>
      AssemblyCache_clear d (map Obj deps) =
        Inr (\<lambda>key. if list_ex (\<lambda>dep. dep \<in> set (extract_coefficients (fst key))) deps
                    then None else d key))"
proof (intro conjI impI)
  assume a: "AssemblyCache_assemble B cache (Obj f1) (Obj p1) (Obj (map Obj bcs1)) s1 z1 env1 = (Inr t, cache1) \<and>
    assembly_key B f2 p2 bcs2 s2 z2 = assembly_key B f1 p1 bcs1 s1 z1 \<and>
    (length bcs2 = 0 \<or> form_rank f2 = 2)"
  have v: "\<And>xs::nat list. list_all is_obj (map Obj xs)"
    by (simp add: list_all_iff)
  from a have "assemble_checked B cache f1 p1 bcs1 s1 z1 env1 = (Inr t, cache1)"
    by (simp add: AssemblyCache_assemble_def v map_filter_the_obj)
  then have "cache1 (assembly_key B f1 p1 bcs1 s1 z1) = Some t"
    by (rule assemble_checked_stores)
  with a have "assemble_checked B cache1 f2 p2 bcs2 s2 z2 env2 = (Inr t, cache1)"
    by (intro assemble_checked_hit) auto
  then show "AssemblyCache_assemble B cache1 (Obj f2) (Obj p2) (Obj (map Obj bcs2)) s2 z2 env2 = (Inr t, cache1)"
    by (simp add: AssemblyCache_assemble_def v map_filter_the_obj)
next
  assume "AssemblyCache_assemble B c fa pa ba s z env = (res, c') \<and> c k = Some u"
  then show "c' k = Some u"
    by (auto dest: AssemblyCache_assemble_keeps)
next
  show "AssemblyCache_clear d [] = Inr Map.empty"
    by (simp add: AssemblyCache_clear_def)
next
  assume "deps \<noteq> []"
  then show "AssemblyCache_clear d (map Obj deps) =
        Inr (\<lambda>key. if list_ex (\<lambda>dep. dep \<in> set (extract_coefficients (fst key))) deps
                    then None else d key)"
    by (auto simp: AssemblyCache_clear_def map_filter_the_obj fold_clear_dep list_all_iff
        list_ex_iff fun_eq_iff)
qed

lemma example_parameters_key:
  "parameters_key [(''optimize'', PLeaf ''False'')] = [KItem ''optimize'' ''False'']"
  by (subst parameters_key.simps) simp

lemma example_assembly_key:
  "assembly_key example_cache_backend example_form [] [] False True = example_key"
  by (simp add: assembly_key_def example_cache_backend_def example_key_def form_key_def
      example_parameters_key bc_key_def)

lemma example_first_call:
  "AssemblyCache_assemble example_cache_backend Map.empty (Obj example_form) (Obj []) (Obj (map Obj []))
       False True (\<lambda>_. 1) = (Inr 1, [example_key \<mapsto> 1])"
  by (simp add: AssemblyCache_assemble_def assemble_checked_def List.map_filter_def
      example_cache_backend_def example_key_def form_key_def example_parameters_key bc_key_def
      example_form_def)

lemma example_cleared:
  "(\<lambda>key. if list_ex (\<lambda>dep. dep \<in> set (extract_coefficients (fst key))) [ConstantCoeff 0]
           then None else [example_key \<mapsto> 1::real] key) = Map.empty"
  by (auto simp: example_key_def example_form_def fun_eq_iff)

theorem C7_assembly_cache_witness:
  "AssemblyCache_assemble example_cache_backend Map.empty (Obj example_form) (Obj []) (Obj (map Obj []))
       False True (\<lambda>_. 1) = (Inr 1, [example_key \<mapsto> 1]) \<and>
   assembly_key example_cache_backend example_form [] [] False True = example_key \<and>
   AssemblyCache_assemble example_cache_backend [example_key \<mapsto> 1] (Obj example_form) (Obj [])
       (Obj (map Obj [])) False True (\<lambda>_. 5) = (Inr 1, [example_key \<mapsto> 1]) \<and>
   [example_key \<mapsto> 1::real] example_key = Some 1 \<and>
   [ConstantCoeff 0] \<noteq> [] \<and>
   AssemblyCache_clear [example_key \<mapsto> 1::real] (map Obj [ConstantCoeff 0]) = Inr Map.empty"
proof -
  note t = C7_assembly_cache [of example_cache_backend Map.empty example_form "[]" "[]" False True
        "\<lambda>_. 1" 1 "[example_key \<mapsto> 1]" example_form "[]" "[]" False True "\<lambda>_. 5"
        "Map.empty" "Obj example_form" "Obj []" "Obj (map Obj [])" False True "\<lambda>_. 1" "Inr 1"
        "[example_key \<mapsto> 1]" example_key 1 "[example_key \<mapsto> 1]" "[ConstantCoeff 0]"]
  have second: "AssemblyCache_assemble example_cache_backend [example_key \<mapsto> 1] (Obj example_form)
       (Obj []) (Obj (map Obj [])) False True (\<lambda>_. 5) = (Inr 1, [example_key \<mapsto> 1])"
    using t [THEN conjunct1] example_first_call example_assembly_key by simp
  have ne: "[ConstantCoeff 0] \<noteq> []"
    by simp
  have "AssemblyCache_clear [example_key \<mapsto> 1::real] (map Obj [ConstantCoeff 0]) =
      Inr (\<lambda>key. if list_ex (\<lambda>dep. dep \<in> set (extract_coefficients (fst key))) [ConstantCoeff 0]
                  then None else [example_key \<mapsto> 1::real] key)"
    using t [THEN conjunct2, THEN conjunct2, THEN conjunct2, rule_format, OF ne] .
  then have cl: "AssemblyCache_clear [example_key \<mapsto> 1::real] (map Obj [ConstantCoeff 0]) = Inr Map.empty"
    by (simp only: example_cleared)
  have k: "[example_key \<mapsto> 1::real] example_key = Some 1"
    by simp
  show ?thesis
    by (intro conjI example_first_call example_assembly_key second k cl ne)
qed


section \<open>Results for dolfin\_adjoint/function.py\<close>

text \<open>
  C9. \<open>Function.assign(self, other)\<close> with \<open>other\<close> the same object as \<open>self\<close>
  returns at once: the world (the values of all Functions, the registry with its
  versions, the tape with its equations and storage) is returned unchanged, whatever
  the \<open>annotate\<close> argument and the backend are.
\<close>

theorem C9_assign_self_is_noop:
  "dolfin_adjoint_assign B self (Function self) annotate w = (Inr (), w)"
  by (simp add: dolfin_adjoint_assign_def is_same_object_def)

lemma extract_two_a_plus_three_b:
  "check_and_extract_functions (two_a_plus_three_b a b) [] 1 None = Inr [(a, 2), (b, 3)]"
  by (simp add: two_a_plus_three_b_def check_and_extract_functions.simps
      check_mul_and_division.simps)

lemma extract_three_b_plus_two_a:
  "check_and_extract_functions (three_b_plus_two_a a b) [] 1 None = Inr [(b, 3), (a, 2)]"
  by (simp add: three_b_plus_two_a_def check_and_extract_functions.simps
      check_mul_and_division.simps)

lemma extract_scalar_multiple:
  "check_and_extract_functions (Product (ScalarValue c) (Function v)) [] 1 None = Inr [(v, c)]"
  by (simp add: check_and_extract_functions.simps check_mul_and_division.simps)

lemma contract_two_a_plus_three_b:
  assumes "fid a \<noteq> fid b" "fid y \<noteq> fid a" "fid y \<noteq> fid b"
  shows "check_and_contract_linear_comb B (two_a_plus_three_b a b) y w =
           (if fn_space b \<noteq> fn_space a then (Inl AssertionError, w)
            else (Inr [(Function a, 2), (Function b, 3)], w))"
  using assms by (simp add: check_and_contract_linear_comb_def extract_two_a_plus_three_b)

lemma contract_three_b_plus_two_a:
  assumes "fid a \<noteq> fid b" "fid y \<noteq> fid a" "fid y \<noteq> fid b"
  shows "check_and_contract_linear_comb B (three_b_plus_two_a a b) y w =
           (if fn_space a \<noteq> fn_space b then (Inl AssertionError, w)
            else (Inr [(Function b, 3), (Function a, 2)], w))"
  using assms by (simp add: check_and_contract_linear_comb_def extract_three_b_plus_two_a)

lemma contract_scalar_multiple:
  assumes "fid out \<noteq> fid v"
  shows "check_and_contract_linear_comb B (Product (ScalarValue c) (Function v)) out w =
           (Inr [(Function v, c)], w)"
  using assms by (simp add: check_and_contract_linear_comb_def extract_scalar_multiple)

lemma adj_current_name: "adj_current n r = (v, r1) \<Longrightarrow> var_name v = n"
  by (auto simp: adj_current_def mk_variable_def split: option.splits)

lemma adj_current_list_names: "adj_current_list ns r = (vs, r1) \<Longrightarrow> map var_name vs = ns"
proof (induction ns arbitrary: r vs r1)
  case Nil
  then show ?case by simp
next
  case (Cons n ns)
  obtain v ra where a: "adj_current n r = (v, ra)" by (cases "adj_current n r")
  obtain ws rb where b: "adj_current_list ns ra = (ws, rb)" by (cases "adj_current_list ns ra")
  from Cons.prems a b have "vs = v # ws" by simp
  with Cons.IH [OF b] adj_current_name [OF a] show ?case by simp
qed

lemma assign_annotated_registers:
  assumes "assign_annotated B self other (Some True) lincom w = (Inr u, w')"
  shows "\<exists>rhs dep t.
           equations (adjointer w') =
             t @ [\<lparr>eq_var = dep, eq_blocks = [IdentityBlock (fn_space self)],
                   eq_targets = [dep], eq_rhs = LinCom rhs\<rparr>]
           \<and> lc_functions rhs = map fst lincom \<and> lc_weights rhs = map snd lincom
           \<and> lc_fn_space rhs = fn_space self
           \<and> map var_name (lc_deps rhs) = map (expr_str B) (map fst lincom)"
  using assms
  by (auto simp: assign_annotated_def Let_def register_equation_def do_checkpoint_def
      LinComRHS_init_def split: if_splits prod.splits sum.splits
      dest: adj_current_list_names)

lemma assign_reaches_annotated:
  assumes "dolfin_adjoint_assign B y other (Some True) w = (Inr (), w')"
    and "to_annotate B (Some True) = Inr True"
    and "check_and_contract_linear_comb B other y w =
           (if c then (Inl AssertionError, w) else (Inr lincom, w))"
    and "is_Sum_or_Product other"
  shows "assign_annotated B y other (Some True) lincom w = (Inr (), w')"
  using assms
  by (auto simp: dolfin_adjoint_assign_def is_Sum_or_Product_def is_Function_def
      is_same_object_def split: if_splits expr.splits)

lemma list_index_distinct:
  "distinct xs \<Longrightarrow> i < length xs \<Longrightarrow> list_index xs (xs ! i) = Some i"
proof (induction xs arbitrary: i)
  case Nil
  then show ?case by simp
next
  case (Cons x xs)
  then show ?case by (cases i) auto
qed

lemma derivative_action_scales:
  assumes "list_index deps variable = Some i" and "i < length (lc_weights rhs)"
    and "\<not> (symmetric_bcs B \<and> backend_version B > ''1.2.0'')"
    and "backend_name B = ''dolfin''"
    and "to_annotate B None = Inr ta"
    and "\<And>h. assign_values B (Product (ScalarValue (lc_weights rhs ! i)) (Function v)) h =
           Inr (scale (lc_weights rhs ! i) (h (fid v)))"
    and "fid v \<noteq> next_id w"
  shows "\<exists>out w3. LinComRHS_derivative_action B rhs deps vals variable v hermitian w =
             (Inr (VectorFunction out), w3)
           \<and> heap w3 (fid out) = scale (lc_weights rhs ! i) (heap w (fid v))"
proof -
  define out where "out = fst (new_function B (lc_fn_space rhs) w)"
  define w1 where "w1 = snd (new_function B (lc_fn_space rhs) w)"
  have nf: "new_function B (lc_fn_space rhs) w = (out, w1)"
    by (simp add: out_def w1_def)
  have fo: "fid out = next_id w" and h1: "heap w1 (fid v) = heap w (fid v)"
    using assms(7) by (simp_all add: out_def w1_def new_function_def)
  have ne: "fid out \<noteq> fid v"
    using fo assms(7) by simp
  let ?e = "Product (ScalarValue (lc_weights rhs ! i)) (Function v)"
  have da: "dolfin_assign B out ?e w1 =
      (Inr (), w1\<lparr>heap := (heap w1)(fid out := scale (lc_weights rhs ! i) (heap w (fid v)))\<rparr>)"
    by (simp add: dolfin_assign_def assms(6) h1)
  have "dolfin_adjoint_assign B out ?e None w1 = dolfin_assign B out ?e w1"
    using assms(4,5) ne
    by (cases ta)
       (simp_all add: dolfin_adjoint_assign_def is_same_object_def is_Sum_or_Product_def
          is_Function_def contract_scalar_multiple)
  with da have "LinComRHS_derivative_action B rhs deps vals variable v hermitian w =
      (Inr (VectorFunction out),
       w1\<lparr>heap := (heap w1)(fid out := scale (lc_weights rhs ! i) (heap w (fid v)))\<rparr>)"
    using assms(1,2,3) nf by (simp add: LinComRHS_derivative_action_def)
  then show ?thesis by simp
qed

lemma annotated_sum_needs_dolfin:
  assumes "dolfin_adjoint_assign B y other (Some True) w = (Inr (), w')"
    and "to_annotate B (Some True) = Inr True"
    and "is_Sum_or_Product other"
  shows "backend_name B = ''dolfin''"
  using assms
  by (auto simp: dolfin_adjoint_assign_def is_Sum_or_Product_def is_same_object_def
      split: if_splits expr.splits)

text \<open>
  C2. After the assignment \<open>y = 2*a + 3*b\<close> has been annotated (with the operands of
  the sum in either order), the right-hand side of the equation registered last is a
  \<open>LinComRHS\<close> whose \<open>derivative_action\<close> with respect to the variable of \<open>a\<close>, with
  symmetric boundary conditions off, returns a new Function holding 2 times the
  contraction vector, for every contraction vector \<open>v\<close>, every \<open>values\<close> and either
  direction. The hypotheses say what the claim presupposes: annotation is on, \<open>a\<close>,
  \<open>b\<close> and \<open>y\<close> are different Functions, \<open>a\<close> and \<open>b\<close> have different names, the
  backend's own assign gives the target of \<open>2*v\<close> twice the values of \<open>v\<close>, and \<open>v\<close>
  is an existing object.
\<close>

theorem C2_lincom_derivative_action:
  assumes "other = two_a_plus_three_b a b \<or> other = three_b_plus_two_a a b"
    and "to_annotate B (Some True) = Inr True"
    and "dolfin_adjoint_assign B y other (Some True) w = (Inr (), w')"
    and "fid a \<noteq> fid b" and "fid y \<noteq> fid a" and "fid y \<noteq> fid b"
    and "adj_name a \<noteq> adj_name b"
    and "\<not> (symmetric_bcs B \<and> backend_version B > ''1.2.0'')"
    and "to_annotate B None = Inr ta"
    and "\<And>h. assign_values B (Product (ScalarValue 2) (Function v)) h = Inr (scale 2 (h (fid v)))"
    and "fid v \<noteq> next_id w2"
  shows "\<exists>eq rhs i out w3.
      equations (adjointer w') \<noteq> [] \<and> last (equations (adjointer w')) = eq
      \<and> eq_rhs eq = LinCom rhs
      \<and> i < length (lc_functions rhs) \<and> lc_functions rhs ! i = Function a
      \<and> LinComRHS_derivative_action B rhs (lc_deps rhs) vals (lc_deps rhs ! i) v hermitian w2 =
          (Inr (VectorFunction out), w3)
      \<and> heap w3 (fid out) = scale 2 (heap w2 (fid v))"
proof -
  have sp: "is_Sum_or_Product other"
    using assms(1) by (auto simp: is_Sum_or_Product_def two_a_plus_three_b_def three_b_plus_two_a_def)
  have dolfin: "backend_name B = ''dolfin''"
    using annotated_sum_needs_dolfin [OF assms(3) assms(2) sp] .
  obtain lincom i where
    ann: "assign_annotated B y other (Some True) lincom w = (Inr (), w')"
    and li: "i < length lincom" "lincom ! i = (Function a, 2)"
    and names: "map (expr_str B) (map fst lincom) = [adj_name a, adj_name b]
                \<or> map (expr_str B) (map fst lincom) = [adj_name b, adj_name a]"
  proof (cases "other = two_a_plus_three_b a b")
    case True
    have "assign_annotated B y other (Some True) [(Function a, 2), (Function b, 3)] w = (Inr (), w')"
      using assign_reaches_annotated [OF assms(3) assms(2) _ sp]
        contract_two_a_plus_three_b [OF assms(4,5,6)] True by simp
    then show ?thesis
      using that [of "[(Function a, 2), (Function b, 3)]" 0] by (simp add: expr_str_def)
  next
    case False
    then have o: "other = three_b_plus_two_a a b" using assms(1) by simp
    have "assign_annotated B y other (Some True) [(Function b, 3), (Function a, 2)] w = (Inr (), w')"
      using assign_reaches_annotated [OF assms(3) assms(2) _ sp]
        contract_three_b_plus_two_a [OF assms(4,5,6)] o by simp
    then show ?thesis
      using that [of "[(Function b, 3), (Function a, 2)]" 1] by (simp add: expr_str_def)
  qed
  from assign_annotated_registers [OF ann] obtain rhs dep t where
    eqs: "equations (adjointer w') =
             t @ [\<lparr>eq_var = dep, eq_blocks = [IdentityBlock (fn_space y)],
                   eq_targets = [dep], eq_rhs = LinCom rhs\<rparr>]"
    and fs: "lc_functions rhs = map fst lincom" and ws: "lc_weights rhs = map snd lincom"
    and dn: "map var_name (lc_deps rhs) = map (expr_str B) (map fst lincom)"
    by blast
  have len: "length (lc_deps rhs) = length lincom"
    using dn by (metis length_map)
  have "distinct (map var_name (lc_deps rhs))"
    using names dn assms(7) by auto
  then have dist: "distinct (lc_deps rhs)"
    by (simp add: distinct_map)
  have idx: "list_index (lc_deps rhs) (lc_deps rhs ! i) = Some i"
    using list_index_distinct [OF dist] li(1) len by simp
  have wi: "i < length (lc_weights rhs)" "lc_weights rhs ! i = 2"
    using li ws by simp_all
  have av: "\<And>h. assign_values B (Product (ScalarValue (lc_weights rhs ! i)) (Function v)) h =
           Inr (scale (lc_weights rhs ! i) (h (fid v)))"
    using assms(10) wi(2) by simp
  from derivative_action_scales [OF idx wi(1) assms(8) dolfin assms(9) av assms(11),
      where vals = vals and hermitian = hermitian]
  obtain out w3 where
    "LinComRHS_derivative_action B rhs (lc_deps rhs) vals (lc_deps rhs ! i) v hermitian w2 =
       (Inr (VectorFunction out), w3)"
    "heap w3 (fid out) = scale 2 (heap w2 (fid v))"
    using wi(2) by metis
  moreover have "lc_functions rhs ! i = Function a" "i < length (lc_functions rhs)"
    using fs li by simp_all
  ultimately show ?thesis
    using eqs by auto
qed

lemma example_assign_fst:
  "fst (dolfin_adjoint_assign example_fbackend func_y (three_b_plus_two_a func_a func_b) (Some True)
         example_world) = Inr ()"
  by (simp add: dolfin_adjoint_assign_def is_same_object_def is_Sum_or_Product_def
      is_Function_def three_b_plus_two_a_def example_fbackend_def func_a_def func_b_def func_y_def
      example_world_def check_and_contract_linear_comb_def check_and_extract_functions.simps
      check_mul_and_division.simps assign_annotated_def adj_current_def adj_next_def
      mk_variable_def variable_known_def adj_forget_def dolfin_assign_def LinComRHS_init_def
      register_equation_def record_variable_def do_checkpoint_def mk_initial_def expr_str_def
      Let_def)

lemma example_assign_next_id:
  "next_id (snd (dolfin_adjoint_assign example_fbackend func_y (three_b_plus_two_a func_a func_b)
         (Some True) example_world)) = 4"
  by (simp add: dolfin_adjoint_assign_def is_same_object_def is_Sum_or_Product_def
      is_Function_def three_b_plus_two_a_def example_fbackend_def func_a_def func_b_def func_y_def
      example_world_def check_and_contract_linear_comb_def check_and_extract_functions.simps
      check_mul_and_division.simps assign_annotated_def adj_current_def adj_next_def
      mk_variable_def variable_known_def adj_forget_def dolfin_assign_def LinComRHS_init_def
      register_equation_def record_variable_def do_checkpoint_def mk_initial_def expr_str_def
      Let_def)

theorem C2_lincom_derivative_action_witness:
  "(three_b_plus_two_a func_a func_b = two_a_plus_three_b func_a func_b
      \<or> three_b_plus_two_a func_a func_b = three_b_plus_two_a func_a func_b)
   \<and> to_annotate example_fbackend (Some True) = Inr True
   \<and> dolfin_adjoint_assign example_fbackend func_y (three_b_plus_two_a func_a func_b) (Some True)
         example_world =
       (Inr (), snd (dolfin_adjoint_assign example_fbackend func_y
                       (three_b_plus_two_a func_a func_b) (Some True) example_world))
   \<and> fid func_a \<noteq> fid func_b \<and> fid func_y \<noteq> fid func_a \<and> fid func_y \<noteq> fid func_b
   \<and> adj_name func_a \<noteq> adj_name func_b
   \<and> \<not> (symmetric_bcs example_fbackend \<and> backend_version example_fbackend > ''1.2.0'')
   \<and> to_annotate example_fbackend None = Inr True
   \<and> (\<forall>h. assign_values example_fbackend (Product (ScalarValue 2) (Function func_v)) h =
            Inr (scale 2 (h (fid func_v))))
   \<and> fid func_v \<noteq> next_id (snd (dolfin_adjoint_assign example_fbackend func_y
                       (three_b_plus_two_a func_a func_b) (Some True) example_world))
   \<and> (\<exists>eq rhs i out w3.
        equations (adjointer (snd (dolfin_adjoint_assign example_fbackend func_y
                       (three_b_plus_two_a func_a func_b) (Some True) example_world))) \<noteq> []
        \<and> last (equations (adjointer (snd (dolfin_adjoint_assign example_fbackend func_y
                       (three_b_plus_two_a func_a func_b) (Some True) example_world)))) = eq
        \<and> eq_rhs eq = LinCom rhs
        \<and> i < length (lc_functions rhs) \<and> lc_functions rhs ! i = Function func_a
        \<and> LinComRHS_derivative_action example_fbackend rhs (lc_deps rhs) [] (lc_deps rhs ! i)
             func_v True
             (snd (dolfin_adjoint_assign example_fbackend func_y
                       (three_b_plus_two_a func_a func_b) (Some True) example_world)) =
            (Inr (VectorFunction out), w3)
        \<and> heap w3 (fid out) =
            scale 2 (heap (snd (dolfin_adjoint_assign example_fbackend func_y
                       (three_b_plus_two_a func_a func_b) (Some True) example_world)) (fid func_v)))"
proof -
  let ?W = "snd (dolfin_adjoint_assign example_fbackend func_y
                       (three_b_plus_two_a func_a func_b) (Some True) example_world)"
  have h1: "three_b_plus_two_a func_a func_b = two_a_plus_three_b func_a func_b
      \<or> three_b_plus_two_a func_a func_b = three_b_plus_two_a func_a func_b"
    by simp
  have h2: "to_annotate example_fbackend (Some True) = Inr True"
    by (simp add: example_fbackend_def)
  have h3: "dolfin_adjoint_assign example_fbackend func_y (three_b_plus_two_a func_a func_b)
         (Some True) example_world = (Inr (), ?W)"
    using example_assign_fst by (simp add: prod_eq_iff)
  have h4: "fid func_a \<noteq> fid func_b" and h5: "fid func_y \<noteq> fid func_a"
    and h6: "fid func_y \<noteq> fid func_b" and h7: "adj_name func_a \<noteq> adj_name func_b"
    by (simp_all add: func_a_def func_b_def func_y_def)
  have h8: "\<not> (symmetric_bcs example_fbackend \<and> backend_version example_fbackend > ''1.2.0'')"
    by (simp add: example_fbackend_def)
  have h9: "to_annotate example_fbackend None = Inr True"
    by (simp add: example_fbackend_def)
  have h10: "\<And>h. assign_values example_fbackend (Product (ScalarValue 2) (Function func_v)) h =
            Inr (scale 2 (h (fid func_v)))"
    by (simp add: example_fbackend_def)
  have h11: "fid func_v \<noteq> next_id ?W"
    by (simp add: example_assign_next_id func_v_def)
  note c = C2_lincom_derivative_action [OF h1 h2 h3 h4 h5 h6 h7 h8 h9 h10 h11,
      where vals = "[]" and hermitian = True]
  show ?thesis
    using h1 h2 h3 h4 h5 h6 h7 h8 h9 h10 h11 c by blast
qed



section \<open>Results for matrix\_free.py\<close>

text \<open>
  C3 (as amended). If the operator \<open>A\<close> has no \<open>transpmult\<close> method, the annotated
  \<open>AdjointPETScKrylovSolver.solve\<close> fails at once, at registration: it raises
  \<open>LibadjointErrorInvalidInputs\<close> with the message about the missing \<open>.transpmult\<close>
  method, and the world is the one it was called in, so no equation has been appended,
  no variable allocated and the forward solve has not run. The exception is not the
  \<open>ContractError("missing transpose")\<close> of the claim; the counterexample below
  evaluates the call on an operator without \<open>transpmult\<close>.
\<close>

theorem C3_missing_transpmult_raises_at_registration:
  "op_transpmult A = None \<Longrightarrow>
   AdjointPETScKrylovSolver_solve B solver_parameters A x b True w =
     (Inl (LibadjointErrorInvalidInputs transpmult_message), w)"
  by (simp add: AdjointPETScKrylovSolver_solve_def solve_annotate_def)

theorem C3_missing_transpmult_witness:
  "op_transpmult operator_without_transpmult = None \<and>
   AdjointPETScKrylovSolver_solve example_mf_backend [] operator_without_transpmult example_x
       example_b True example_mf_world =
     (Inl (LibadjointErrorInvalidInputs transpmult_message), example_mf_world)"
proof -
  have h: "op_transpmult operator_without_transpmult = None"
    by (simp add: operator_without_transpmult_def)
  from h C3_missing_transpmult_raises_at_registration [OF h] show ?thesis
    by blast
qed

theorem C3_not_ContractError_counterexample:
  "op_transpmult operator_without_transpmult = None \<and>
   fst (AdjointPETScKrylovSolver_solve example_mf_backend [] operator_without_transpmult example_x
          example_b True example_mf_world) \<noteq> Inl (ContractError ''missing transpose'') \<and>
   map_sum py_class id
     (fst (AdjointPETScKrylovSolver_solve example_mf_backend [] operator_without_transpmult
             example_x example_b True example_mf_world)) = Inl ''LibadjointErrorInvalidInputs''"
  by (simp add: AdjointPETScKrylovSolver_solve_def solve_annotate_def
      operator_without_transpmult_def)

lemma solve_annotate_registers:
  assumes "solve_annotate B params A x b w = (Inr var, w1)"
  shows "\<exists>tm xf bform blk rhs t.
           op_transpmult A = Some tm \<and> x_function x = Some xf \<and> b_form b = Some bform
           \<and> equations (mf_adjointer w1) =
               t @ [\<lparr>eq_var = var, eq_blocks = [blk], eq_targets = [var], eq_rhs = rhs\<rparr>]
           \<and> db_A blk = A \<and> db_b blk = b \<and> db_x blk = x \<and> db_solver_parameters blk = params
           \<and> db_frozen blk = mf_expressions w
           \<and> (length (db_dependencies blk) > 0 \<longrightarrow> op_set_dependencies A \<noteq> None)
           \<and> mf_heap w1 = mf_heap w \<and> mf_expressions w1 = mf_expressions w
           \<and> mf_opstate w1 = mf_opstate w"
  using assms
  by (auto simp: solve_annotate_def Let_def register_equation_def do_checkpoint_def
      freeze_dict_def split: if_splits prod.splits sum.splits option.splits)

lemma forward_solve_frame:
  assumes "forward_solve B params A x b w = (r, w1)"
  shows "mf_adjointer w1 = mf_adjointer w \<and> mf_expressions w1 = mf_expressions w
         \<and> mf_opstate w1 = mf_opstate w"
  using assms
  by (auto simp: forward_solve_def Let_def split: prod.splits sum.splits)

lemma solve_registers:
  assumes "AdjointPETScKrylovSolver_solve B params A x b True w = (Inr out, w')"
  shows "\<exists>tm xf bform blk rhs t var.
           op_transpmult A = Some tm \<and> x_function x = Some xf \<and> b_form b = Some bform
           \<and> equations (mf_adjointer w') =
               t @ [\<lparr>eq_var = var, eq_blocks = [blk], eq_targets = [var], eq_rhs = rhs\<rparr>]
           \<and> db_A blk = A \<and> db_b blk = b \<and> db_x blk = x \<and> db_solver_parameters blk = params
           \<and> db_frozen blk = mf_expressions w
           \<and> (length (db_dependencies blk) > 0 \<longrightarrow> op_set_dependencies A \<noteq> None)
           \<and> (debugging_record_all B \<longrightarrow>
                storage (mf_adjointer w') var = Some (mf_heap w' (fid xf)))"
proof -
  from assms obtain var w1 w2 where
    a: "solve_annotate B params A x b w = (Inr var, w1)"
    and f: "forward_solve B params A x b w1 = (Inr out, w2)"
    and r: "w' = (if debugging_record_all B then
                   (case x_function x of
                      Some xf \<Rightarrow> w2\<lparr>mf_adjointer :=
                                record_variable var (mf_heap w2 (fid xf)) (mf_adjointer w2)\<rparr>
                    | None \<Rightarrow> w2)
                  else w2)"
    by (auto simp: AdjointPETScKrylovSolver_solve_def
        split: prod.splits sum.splits if_splits option.splits)
  from solve_annotate_registers [OF a] obtain tm xf bform blk rhs t where
    p: "op_transpmult A = Some tm" "x_function x = Some xf" "b_form b = Some bform"
       "equations (mf_adjointer w1) =
               t @ [\<lparr>eq_var = var, eq_blocks = [blk], eq_targets = [var], eq_rhs = rhs\<rparr>]"
       "db_A blk = A" "db_b blk = b" "db_x blk = x" "db_solver_parameters blk = params"
       "db_frozen blk = mf_expressions w"
       "length (db_dependencies blk) > 0 \<longrightarrow> op_set_dependencies A \<noteq> None"
    by blast
  from forward_solve_frame [OF f] have q: "mf_adjointer w2 = mf_adjointer w1"
    by simp
  have e: "equations (mf_adjointer w') = equations (mf_adjointer w1)"
    using r q p(2) by (simp add: record_variable_def)
  have s: "debugging_record_all B \<longrightarrow> storage (mf_adjointer w') var = Some (mf_heap w' (fid xf))"
    using r p(2) by (simp add: record_variable_def)
  show ?thesis
    using p e s by auto
qed



lemma diag_assembly_cb_symmetric:
  assumes "op_transpmult (db_A blk) = Some (op_mult (db_A blk))"
    and "b_bcs (db_b blk) = Some bcs"
    and "list_all (\<lambda>bc. is_DirichletBC B bc \<and> homogenize B bc = bc) bcs"
  shows "diag_assembly_cb B blk deps vals True c ctx w = diag_assembly_cb B blk deps vals False c ctx w"
proof -
  have f: "filter (is_DirichletBC B) bcs = bcs"
    using assms(3) by (induction bcs) auto
  have h: "map (homogenize B) bcs = bcs"
    using assms(3) by (induction bcs) auto
  have a: "(db_A blk)\<lparr>op_transpmult := Some (op_mult (db_A blk)), op_mult := op_mult (db_A blk)\<rparr> = db_A blk"
    using assms(1) by (cases "db_A blk") simp
  show ?thesis
    using assms(1,2) by (simp add: diag_assembly_cb_def Let_def f h a split: option.splits sum.splits)
qed

text \<open>
  C4 (as amended). For an operator whose \<open>transpmult\<close> is its \<open>mult\<close>, and a
  right-hand side all of whose boundary conditions are Dirichlet conditions that
  \<open>homogenize\<close> leaves as they are (in particular when there are none), the assembly
  callback returns the same result and world for \<open>hermitian = True\<close> as for
  \<open>hermitian = False\<close>, and so assembling and solving gives the same result in the two
  directions for every right-hand side. Without the condition on the boundary
  conditions the two solves differ, as the counterexample below shows for the identity
  operator and one inhomogeneous Dirichlet condition: the adjoint direction applies the
  homogenized conditions.
\<close>

theorem C4_symmetric_operator_homogeneous_bcs:
  assumes "op_transpmult (db_A blk) = Some (op_mult (db_A blk))"
    and "b_bcs (db_b blk) = Some bcs"
    and "list_all (\<lambda>bc. is_DirichletBC B bc \<and> homogenize B bc = bc) bcs"
  shows "diag_assembly_cb B blk deps vals True c ctx w = diag_assembly_cb B blk deps vals False c ctx w
    \<and> assemble_and_solve B blk deps vals True var rb w =
        assemble_and_solve B blk deps vals False var rb w"
  by (simp add: diag_assembly_cb_symmetric [OF assms] assemble_and_solve_def)

lemma example_adjoint_solve:
  "assemble_and_solve example_mf_backend (example_block identity_operator) [] [] True example_var
     example_rhs_form example_mf_world = Inr [0, 2]"
  by (simp add: assemble_and_solve_def diag_assembly_cb_def example_block_def
      identity_operator_def example_b_def example_x_def func_x_def example_mf_backend_def
      MatrixFree_solve_def operator_actions_def vadd_def vsub_def Let_def numeral_2_eq_2)

lemma example_forward_solve:
  "assemble_and_solve example_mf_backend (example_block identity_operator) [] [] False example_var
     example_rhs_form example_mf_world = Inr [5, 2]"
  by (simp add: assemble_and_solve_def diag_assembly_cb_def example_block_def
      identity_operator_def example_b_def example_x_def func_x_def example_mf_backend_def
      MatrixFree_solve_def operator_actions_def vadd_def vsub_def Let_def numeral_2_eq_2)

theorem C4_solves_differ_counterexample:
  "op_transpmult identity_operator = Some (op_mult identity_operator)
   \<and> assemble_and_solve example_mf_backend (example_block identity_operator) [] [] True example_var
       example_rhs_form example_mf_world
     \<noteq> assemble_and_solve example_mf_backend (example_block identity_operator) [] [] False example_var
       example_rhs_form example_mf_world"
proof -
  have "op_transpmult identity_operator = Some (op_mult identity_operator)"
    by (simp add: identity_operator_def)
  then show ?thesis
    by (simp add: example_adjoint_solve example_forward_solve)
qed

lemma update_expressions_agree:
  assumes "\<forall>k. k \<notin> dom d \<longrightarrow> s k = s' k"
  shows "update_expressions d s = update_expressions d s'"
  using assms by (auto simp: update_expressions_def map_add_def fun_eq_iff split: option.splits)

lemma diag_assembly_cb_frozen:
  assumes "\<forall>k. k \<notin> dom (db_frozen blk) \<longrightarrow> s k = mf_expressions wl k"
  shows "diag_assembly_cb B blk deps vals h 1 ctx (wl\<lparr>mf_expressions := s\<rparr>) =
         diag_assembly_cb B blk deps vals h 1 ctx wl"
  using update_expressions_agree [OF assms]
  by (simp add: diag_assembly_cb_def)

lemma derivative_action_cb_frozen:
  assumes "\<forall>k. k \<notin> dom (db_frozen blk) \<longrightarrow> s k = mf_expressions wl k"
  shows "derivative_action_cb blk deps vals v cv h inp c ctx (wl\<lparr>mf_expressions := s\<rparr>) =
         derivative_action_cb blk deps vals v cv h inp c ctx wl"
  using update_expressions_agree [OF assms]
  by (simp add: derivative_action_cb_def)

lemma diag_assembly_cb_restores:
  "mf_expressions (snd (diag_assembly_cb B blk deps vals h 1 ctx wl)) =
     mf_expressions wl ++ db_frozen blk"
  by (auto simp: diag_assembly_cb_def Let_def update_expressions_def split: option.splits)

lemma derivative_action_cb_restores:
  "mf_expressions (snd (derivative_action_cb blk deps vals v cv h inp c ctx wl)) =
     mf_expressions wl ++ db_frozen blk"
  by (auto simp: derivative_action_cb_def Let_def update_expressions_def split: option.splits)

text \<open>
  C5. After an annotated matrix-free solve has returned, the block of the equation
  registered last holds as its frozen snapshot the expression values of the moment of
  registration; and in any later world, changing the values of those frozen expressions
  (a store \<open>s\<close> that agrees with the world's outside the frozen ones) changes neither
  the result nor the final world of the assembly callback (called with coefficient 1,
  the only one it accepts) or of the derivative-action callback: both set the frozen
  expressions back to the snapshot before they evaluate.
\<close>

theorem C5_callbacks_use_frozen_expressions:
  assumes "AdjointPETScKrylovSolver_solve B params A x b True w = (Inr out, w')"
    and "s |` (- dom (mf_expressions w)) = mf_expressions wl |` (- dom (mf_expressions w))"
  shows "\<exists>blk.
      eq_blocks (last (equations (mf_adjointer w'))) = [blk]
      \<and> db_frozen blk = mf_expressions w
      \<and> diag_assembly_cb B blk deps vals h 1 ctx (wl\<lparr>mf_expressions := s\<rparr>) =
          diag_assembly_cb B blk deps vals h 1 ctx wl
      \<and> derivative_action_cb blk deps vals v cv h inp c ctx (wl\<lparr>mf_expressions := s\<rparr>) =
          derivative_action_cb blk deps vals v cv h inp c ctx wl
      \<and> mf_expressions (snd (diag_assembly_cb B blk deps vals h 1 ctx wl)) =
          mf_expressions wl ++ mf_expressions w
      \<and> mf_expressions (snd (derivative_action_cb blk deps vals v cv h inp c ctx wl)) =
          mf_expressions wl ++ mf_expressions w"
proof -
  from solve_registers [OF assms(1)] obtain blk rhs t var where
    p: "equations (mf_adjointer w') =
               t @ [\<lparr>eq_var = var, eq_blocks = [blk], eq_targets = [var], eq_rhs = rhs\<rparr>]"
       "db_frozen blk = mf_expressions w"
    by blast
  have a: "\<forall>k. k \<notin> dom (db_frozen blk) \<longrightarrow> s k = mf_expressions wl k"
  proof (intro allI impI)
    fix k assume "k \<notin> dom (db_frozen blk)"
    then have "k \<in> - dom (mf_expressions w)" using p(2) by simp
    then have "(s |` (- dom (mf_expressions w))) k = s k"
      and "(mf_expressions wl |` (- dom (mf_expressions w))) k = mf_expressions wl k"
      by simp_all
    with assms(2) show "s k = mf_expressions wl k" by simp
  qed
  have l: "eq_blocks (last (equations (mf_adjointer w'))) = [blk]"
    using p(1) by simp
  have r1: "mf_expressions (snd (diag_assembly_cb B blk deps vals h 1 ctx wl)) =
          mf_expressions wl ++ mf_expressions w"
    using diag_assembly_cb_restores [of B blk deps vals h ctx wl] p(2) by simp
  have r2: "mf_expressions (snd (derivative_action_cb blk deps vals v cv h inp c ctx wl)) =
          mf_expressions wl ++ mf_expressions w"
    using derivative_action_cb_restores [of blk deps vals v cv h inp c ctx wl] p(2) by simp
  show ?thesis
    by (intro exI [of _ blk] conjI l p(2) diag_assembly_cb_frozen [OF a]
        derivative_action_cb_frozen [OF a] r1 r2)
qed








lemma example_solve_fst:
  "fst (AdjointPETScKrylovSolver_solve example_mf_backend [] identity_operator example_x example_b
          True example_mf_world) = Inr 1"
  by (simp add: AdjointPETScKrylovSolver_solve_def solve_annotate_def identity_operator_def
      example_x_def example_b_def example_mf_world_def example_mf_backend_def func_x_def
      example_rhs_form_def RHS_init_def RHS_coefficients_def adj_next_def mk_variable_def
      register_equation_def variable_known_def do_checkpoint_def forward_solve_def
      operator_actions_def record_variable_def freeze_dict_def Let_def)

lemma example_solve:
  "AdjointPETScKrylovSolver_solve example_mf_backend [] identity_operator example_x example_b
          True example_mf_world =
     (Inr 1, snd (AdjointPETScKrylovSolver_solve example_mf_backend [] identity_operator example_x
                    example_b True example_mf_world))"
  using example_solve_fst by (simp add: prod_eq_iff)


theorem C4_symmetric_operator_homogeneous_bcs_witness:
  "op_transpmult (db_A homogeneous_block) = Some (op_mult (db_A homogeneous_block))
   \<and> b_bcs (db_b homogeneous_block) = Some [Dirichlet [(0, 0)]]
   \<and> list_all (\<lambda>bc. is_DirichletBC example_mf_backend bc \<and> homogenize example_mf_backend bc = bc)
        [Dirichlet [(0, 0)]]
   \<and> diag_assembly_cb example_mf_backend homogeneous_block [] [] True 1 () example_mf_world =
       diag_assembly_cb example_mf_backend homogeneous_block [] [] False 1 () example_mf_world
   \<and> assemble_and_solve example_mf_backend homogeneous_block [] [] True example_var
         example_rhs_form example_mf_world =
       assemble_and_solve example_mf_backend homogeneous_block [] [] False example_var
         example_rhs_form example_mf_world"
proof -
  have h1: "op_transpmult (db_A homogeneous_block) = Some (op_mult (db_A homogeneous_block))"
    by (simp add: homogeneous_block_def example_block_def identity_operator_def)
  have h2: "b_bcs (db_b homogeneous_block) = Some [Dirichlet [(0, 0)]]"
    by (simp add: homogeneous_block_def)
  have h3: "list_all (\<lambda>bc. is_DirichletBC example_mf_backend bc
                \<and> homogenize example_mf_backend bc = bc) [Dirichlet [(0, 0)]]"
    by (simp add: example_mf_backend_def)
  note c = C4_symmetric_operator_homogeneous_bcs [OF h1 h2 h3,
      where deps = "[]" and vals = "[]" and c = 1 and ctx = "()" and w = example_mf_world
        and var = example_var and rb = example_rhs_form]
  show ?thesis
    using h1 h2 h3 c by blast
qed

lemma example_agree:
  "[(0, ''t'') \<mapsto> 9] |` (- dom (mf_expressions example_mf_world)) =
     mf_expressions example_mf_world |` (- dom (mf_expressions example_mf_world))"
  by (auto simp: example_mf_world_def restrict_map_def fun_eq_iff)

theorem C5_callbacks_use_frozen_expressions_witness:
  "AdjointPETScKrylovSolver_solve example_mf_backend [] identity_operator example_x example_b
          True example_mf_world =
     (Inr 1, snd (AdjointPETScKrylovSolver_solve example_mf_backend [] identity_operator example_x
                    example_b True example_mf_world))
   \<and> [(0, ''t'') \<mapsto> 9] |` (- dom (mf_expressions example_mf_world)) =
       mf_expressions example_mf_world |` (- dom (mf_expressions example_mf_world))
   \<and> (\<exists>blk.
      eq_blocks (last (equations (mf_adjointer (snd (AdjointPETScKrylovSolver_solve
                    example_mf_backend [] identity_operator example_x example_b True
                    example_mf_world))))) = [blk]
      \<and> db_frozen blk = mf_expressions example_mf_world
      \<and> diag_assembly_cb example_mf_backend blk [] [] True 1 ()
            (example_mf_world\<lparr>mf_expressions := [(0, ''t'') \<mapsto> 9]\<rparr>) =
          diag_assembly_cb example_mf_backend blk [] [] True 1 () example_mf_world
      \<and> derivative_action_cb blk [] [] example_var [] True [] 1 ()
            (example_mf_world\<lparr>mf_expressions := [(0, ''t'') \<mapsto> 9]\<rparr>) =
          derivative_action_cb blk [] [] example_var [] True [] 1 () example_mf_world
      \<and> mf_expressions (snd (diag_assembly_cb example_mf_backend blk [] [] True 1 ()
            example_mf_world)) =
          mf_expressions example_mf_world ++ mf_expressions example_mf_world
      \<and> mf_expressions (snd (derivative_action_cb blk [] [] example_var [] True [] 1 ()
            example_mf_world)) =
          mf_expressions example_mf_world ++ mf_expressions example_mf_world)"
proof -
  note c = C5_callbacks_use_frozen_expressions [OF example_solve example_agree,
      where deps = "[]" and vals = "[]" and h = True and ctx = "()" and v = example_var
        and cv = "[]" and inp = "[]" and c = 1]
  show ?thesis
    by (intro conjI example_solve example_agree c)
qed




end
